theory Spec2Isabelle
  imports Complex_Main "HOL-Library.Sublist" "HOL-Library.AList"
begin

section \<open>Python values\<close>

text \<open>
  A Python \<open>str\<close> is a sequence of Unicode code points, so \<open>str\<close> is a list of
  naturals; \<open>kw in s\<close> is \<^const>\<open>sublist\<close> on such lists. Literals of the source that
  are plain ASCII are written \<open>ascii ''...''\<close>, the Korean ones as their code points
  (the keyword for "neck" at line 294 of \<^verbatim>\<open>smart_quest_system.py\<close> is the single code
  point U+BAA9).
\<close>

type_synonym str = "nat list"

definition ascii :: "string \<Rightarrow> str" where
  "ascii s = map of_char s"

text \<open>
  \<open>str.lower\<close> and \<open>str.title\<close> are defined by the Unicode character database. The
  model takes them as parameters, so every theorem below holds for whatever these two
  functions are.
\<close>

record pystr =
  str_lower :: "str \<Rightarrow> str"
  str_title :: "str \<Rightarrow> str"

text \<open>
  The instance used to evaluate the model on concrete inputs: case mapping of the Basic
  Latin letters, every other code point left as it is. It agrees with Python on strings made
  of Basic Latin and caseless code points (Hangul syllables, digits, punctuation).
\<close>

definition is_upper :: "nat \<Rightarrow> bool" where
  "is_upper c = (0x41 \<le> c \<and> c \<le> 0x5A)"

definition is_lower :: "nat \<Rightarrow> bool" where
  "is_lower c = (0x61 \<le> c \<and> c \<le> 0x7A)"

definition to_lower :: "nat \<Rightarrow> nat" where
  "to_lower c = (if is_upper c then c + 32 else c)"

definition to_upper :: "nat \<Rightarrow> nat" where
  "to_upper c = (if is_lower c then c - 32 else c)"

fun title_from :: "bool \<Rightarrow> str \<Rightarrow> str" where
  "title_from previous_is_cased [] = []"
| "title_from previous_is_cased (c # cs) =
     (if is_upper c \<or> is_lower c
      then (if previous_is_cased then to_lower c else to_upper c) # title_from True cs
      else c # title_from False cs)"

definition latin :: pystr where
  "latin = \<lparr>str_lower = map to_lower, str_title = title_from False\<rparr>"

text \<open>\<open>str(n)\<close> for a length, and \<open>sep.join(xs)\<close>.\<close>

fun str_of_nat :: "nat \<Rightarrow> str" where
  "str_of_nat n = (if n < 10 then [48 + n] else str_of_nat (n div 10) @ [48 + n mod 10])"

fun join :: "str \<Rightarrow> str list \<Rightarrow> str" where
  "join sep [] = []"
| "join sep [x] = x"
| "join sep (x # y # ys) = x @ sep @ join sep (y # ys)"

text \<open>
  The values kept in a metadata dictionary, and a dictionary with string keys as an
  association list in insertion order: \<open>d[k] = v\<close> is \<^const>\<open>AList.update\<close>, which
  overwrites in place or appends, as Python does; \<open>d.get(k, default)\<close> is
  \<open>dict_get\<close>. Floats are the rationals their literals denote: the source only compares
  floats written as decimal literals, and rounding to the nearest double keeps the order of
  the literals that occur (0.3, 0.7, 0.8, 0.85, 0.9, 0.95).
\<close>

datatype pyval = PStr str | PFloat real | PInt int | PBool bool | PList "pyval list"

type_synonym dict = "(string \<times> pyval) list"

definition dict_get :: "dict \<Rightarrow> string \<Rightarrow> pyval \<Rightarrow> pyval" where
  "dict_get d k dflt = (case map_of d k of Some v \<Rightarrow> v | None \<Rightarrow> dflt)"

text \<open>\<open>xs[:limit]\<close>: a negative limit counts from the end.\<close>

definition slice_to :: "int \<Rightarrow> 'a list \<Rightarrow> 'a list" where
  "slice_to limit xs =
     (if 0 \<le> limit then take (nat limit) xs else take (length xs - nat (- limit)) xs)"

section \<open>Data classes\<close>

record UserFeedback =
  fb_content :: str
  fb_timestamp :: str
  fb_user_id :: "str option"
  fb_category_hint :: "str option"

text \<open>
  The only objects the program mutates after creating them are the metadata dictionaries,
  and a dictionary is shared between the document in the search index, the documents in a
  result list and the item in the document store. So a document holds the address of its
  dictionary, and the dictionaries live in a heap.
\<close>

type_synonym addr = nat

record ExpertDocument =
  document_id :: str
  topic :: str
  content :: str
  metadata :: addr
  quality_score :: real
  created_at :: str

record Quest =
  title :: str
  if_condition :: str
  then_action :: str
  estimated_time :: str
  difficulty :: str
  success_metric :: str
  rag_evidence :: str

text \<open>One trusted source of \<open>KendraClient\<close>: a dictionary with these four keys.\<close>

record TrustedSource =
  src_title :: str
  src_content :: str
  src_source :: str
  src_confidence :: str

text \<open>
  The dictionary returned by \<open>process_user_feedback\<close>: a key that is absent is
  \<open>None\<close>. The nested \<open>"metadata"\<close> dictionary is a \<open>dict\<close>.
\<close>

record PipelineResult =
  success :: bool
  error :: "str option"
  fallback_quest :: "Quest list option"
  res_method :: "str option"
  documents_used :: "nat option"
  res_document_id :: "str option"
  expert_document :: "ExpertDocument option"
  quests :: "Quest list option"
  res_metadata :: "dict option"

definition no_keys :: PipelineResult where
  "no_keys = \<lparr>success = False, error = None, fallback_quest = None, res_method = None,
     documents_used = None, res_document_id = None, expert_document = None, quests = None,
     res_metadata = None\<rparr>"

section \<open>System state and environment\<close>

text \<open>
  The state of a \<open>SmartQuestSystem\<close>: its readiness flag, the heap of metadata
  dictionaries with the next free address, the list \<open>mock_documents\<close> of the
  \<open>OpenSearchClient\<close> and the dictionary \<open>mock_storage\<close> of the \<open>DynamoDBClient\<close>,
  keyed by document identifier. A stored item has the six keys of a document, its
  \<open>"metadata"\<close> being the document's own dictionary, so it is an \<open>ExpertDocument\<close>.
\<close>

record system =
  system_ready :: bool
  heap :: "addr \<Rightarrow> dict"
  next_addr :: addr
  mock_documents :: "ExpertDocument list"
  mock_storage :: "(str \<times> ExpertDocument) list"

text \<open>
  What a request takes from outside: the three readings of the clock, already formatted,
  and for each awaited call of a collaborator whether it raises, and with which message.
  The mock collaborators of the source never raise; a call that raises here stands for a
  backing service that fails, and has no effect on the state. With every \<open>raise_\<close> field
  \<open>None\<close> the model is the source as it runs.
\<close>

record env =
  now_stamp :: str
  now_created :: str
  now_processed :: str
  raise_find_similar :: "str option"
  raise_generate_existing :: "str option"
  raise_search_trusted :: "str option"
  raise_create_expert :: "str option"
  raise_save :: "str option"
  raise_index :: "str option"
  raise_generate_new :: "str option"

section \<open>SmartQuestSystem: category and fallback\<close>

text \<open>
  \<open>SmartQuestSystem._determine_category\<close> (lines 290-305). The keywords are, in
  order: neck, shoulder, waist, pain, health, exercise, stretching, body; money, budget,
  investment, savings, finances, banking, stocks, fund; skin, skincare, cosmetics, face
  washing, lotion, cream, acne.
\<close>

definition health_keywords :: "str list" where
  "health_keywords = [[0xBAA9], [0xC5B4, 0xAE68], [0xD5C8, 0xB9AC], [0xD1B5, 0xC99D], [0xAC74, 0xAC15], [0xC6B4, 0xB3D9], [0xC2A4, 0xD2B8, 0xB808, 0xCE6D], [0xBAB8]]"

definition finance_keywords :: "str list" where
  "finance_keywords = [[0xB3C8], [0xC608, 0xC0B0], [0xD22C, 0xC790], [0xC800, 0xCD95], [0xC7AC, 0xC815], [0xAE08, 0xC735], [0xC8FC, 0xC2DD], [0xD380, 0xB4DC]]"

definition skincare_keywords :: "str list" where
  "skincare_keywords = [[0xD53C, 0xBD80], [0xC2A4, 0xD0A8, 0xCF00, 0xC5B4], [0xD654, 0xC7A5, 0xD488], [0xC138, 0xC548], [0xB85C, 0xC158], [0xD06C, 0xB9BC], [0xC5EC, 0xB4DC, 0xB984]]"

definition determine_category :: "pystr \<Rightarrow> str \<Rightarrow> str" where
  "determine_category U content' =
     (let content_lower = str_lower U content' in
      if list_ex (\<lambda>keyword. sublist keyword content_lower) health_keywords
      then ascii ''health''
      else if list_ex (\<lambda>keyword. sublist keyword content_lower) finance_keywords
      then ascii ''finance''
      else if list_ex (\<lambda>keyword. sublist keyword content_lower) skincare_keywords
      then ascii ''skincare''
      else ascii ''health'')"

text \<open>\<open>SmartQuestSystem._create_fallback_quest\<close> (lines 307-321).\<close>

definition create_fallback_quest :: "pystr \<Rightarrow> UserFeedback \<Rightarrow> Quest list" where
  "create_fallback_quest U feedback =
     (let category = determine_category U (fb_content feedback) in
      [\<lparr>title = [0xAE30, 0xBCF8, 0x20] @ category @ [0x20, 0xC2E4, 0xCC9C, 0xD558, 0xAE30],
        if_condition = [0xD558, 0xB8E8, 0x20, 0xC911, 0x20, 0xC801, 0xC808, 0xD55C, 0x20,
                        0xC2DC, 0xAC04, 0xC5D0],
        then_action = category @ [0x20, 0xAD00, 0xB828, 0x20, 0xAE30, 0xBCF8, 0x20, 0xD589,
                                  0xB3D9, 0x20, 0xC2E4, 0xD589],
        estimated_time = [0x31, 0x30, 0xBD84],
        difficulty = [0xC26C, 0xC6C0],
        success_metric = [0xC77C, 0xC77C, 0x20, 0xC2E4, 0xD589, 0x20, 0xC5EC, 0xBD80],
        rag_evidence = [0xAE30, 0xBCF8, 0x20, 0xAD8C, 0xC7A5, 0xC0AC, 0xD56D]\<rparr>])"

section \<open>OpenSearchClient\<close>

text \<open>
  \<open>_initialize_mock_data\<close> (lines 333-360): three documents, each with a dictionary
  of its own, here at the addresses 0, 1 and 2.
\<close>

definition health_neck_001 :: ExpertDocument where
  "health_neck_001 =
     \<lparr>document_id = ascii ''health_neck_001'',
      topic = ascii ''health'',
      content = [0xBAA9, 0x20, 0xD1B5, 0xC99D, 0x20, 0xC644, 0xD654, 0xB97C, 0x20, 0xC704,
                 0xD55C, 0x20, 0xC804, 0xBB38, 0xAC00, 0x20, 0xAC00, 0xC774, 0xB4DC, 0x3A, 0x20,
                 0xBB3C, 0xB9AC, 0xCE58, 0xB8CC, 0xC0AC, 0x20, 0x33, 0xBA85, 0xC774, 0x20,
                 0xD611, 0xC5C5, 0xD558, 0xC5EC, 0x20, 0xC791, 0xC131, 0xD55C, 0x20, 0xC885,
                 0xD569, 0x20, 0xAC00, 0xC774, 0xB4DC, 0xC785, 0xB2C8, 0xB2E4, 0x2E, 0x20,
                 0xBAA9, 0xC744, 0x20, 0xC88C, 0xC6B0, 0xB85C, 0x20, 0xCC9C, 0xCC9C, 0xD788,
                 0x20, 0xB3CC, 0xB9AC, 0xB294, 0x20, 0xC2A4, 0xD2B8, 0xB808, 0xCE6D, 0xC744,
                 0x20, 0x31, 0x35, 0xCD08, 0xC529, 0x20, 0x33, 0x2D, 0x35, 0xD68C, 0x20, 0xBC18,
                 0xBCF5, 0xD558, 0xBA74, 0x20, 0xD6A8, 0xACFC, 0xC801, 0xC785, 0xB2C8, 0xB2E4,
                 0x2E],
      metadata = 0,
      quality_score = 0.95,
      created_at = ascii ''2024-12-14T10:30:00Z''\<rparr>"

definition finance_budget_001 :: ExpertDocument where
  "finance_budget_001 =
     \<lparr>document_id = ascii ''finance_budget_001'',
      topic = ascii ''finance'',
      content = [0x32, 0x30, 0xB300, 0x20, 0xC9C1, 0xC7A5, 0xC778, 0xC744, 0x20, 0xC704, 0xD55C,
                 0x20, 0xC608, 0xC0B0, 0x20, 0xAD00, 0xB9AC, 0x20, 0xC804, 0xBB38, 0xAC00, 0x20,
                 0xAC00, 0xC774, 0xB4DC, 0x3A, 0x20, 0xC7AC, 0xC815, 0x20, 0xC804, 0xBB38,
                 0xAC00, 0x20, 0x33, 0xBA85, 0xC774, 0x20, 0xD611, 0xC5C5, 0xD558, 0xC5EC, 0x20,
                 0xC791, 0xC131, 0xD588, 0xC2B5, 0xB2C8, 0xB2E4, 0x2E, 0x20, 0x35, 0x30, 0x2F,
                 0x33, 0x30, 0x2F, 0x32, 0x30, 0x20, 0xADDC, 0xCE59, 0xC744, 0x20, 0xD65C,
                 0xC6A9, 0xD558, 0xC5EC, 0x20, 0xC218, 0xC785, 0xC758, 0x20, 0x35, 0x30, 0x25,
                 0xB294, 0x20, 0xD544, 0xC218, 0xC9C0, 0xCD9C, 0x2C, 0x20, 0x33, 0x30, 0x25,
                 0xB294, 0x20, 0xC120, 0xD0DD, 0xC9C0, 0xCD9C, 0x2C, 0x20, 0x32, 0x30, 0x25,
                 0xB294, 0x20, 0xC800, 0xCD95, 0xC73C, 0xB85C, 0x20, 0xBC30, 0xBD84, 0xD558,
                 0xC138, 0xC694, 0x2E],
      metadata = 1,
      quality_score = 0.92,
      created_at = ascii ''2024-12-14T09:15:00Z''\<rparr>"

definition skincare_acne_001 :: ExpertDocument where
  "skincare_acne_001 =
     \<lparr>document_id = ascii ''skincare_acne_001'',
      topic = ascii ''skincare'',
      content = [0xC5EC, 0xB4DC, 0xB984, 0x20, 0xAD00, 0xB9AC, 0xB97C, 0x20, 0xC704, 0xD55C,
                 0x20, 0xD53C, 0xBD80, 0xACFC, 0x20, 0xC804, 0xBB38, 0xC758, 0x20, 0xAC00,
                 0xC774, 0xB4DC, 0x3A, 0x20, 0xD53C, 0xBD80, 0xACFC, 0x20, 0xC804, 0xBB38,
                 0xC758, 0xC640, 0x20, 0xD654, 0xC7A5, 0xD488, 0x20, 0xC5F0, 0xAD6C, 0xC6D0,
                 0xC774, 0x20, 0xD611, 0xC5C5, 0xD558, 0xC5EC, 0x20, 0xC791, 0xC131, 0xD588,
                 0xC2B5, 0xB2C8, 0xB2E4, 0x2E, 0x20, 0xC21C, 0xD55C, 0x20, 0xC138, 0xC548,
                 0xC81C, 0xB85C, 0x20, 0xD558, 0xB8E8, 0x20, 0x32, 0xD68C, 0x20, 0xC138, 0xC548,
                 0xD558, 0xACE0, 0x2C, 0x20, 0xC0B4, 0xB9AC, 0xC2E4, 0xC0B0, 0x20, 0xC131,
                 0xBD84, 0xC758, 0x20, 0xC81C, 0xD488, 0xC744, 0x20, 0xC810, 0xC9C4, 0xC801,
                 0xC73C, 0xB85C, 0x20, 0xC0AC, 0xC6A9, 0xD558, 0xC138, 0xC694, 0x2E],
      metadata = 2,
      quality_score = 0.93,
      created_at = ascii ''2024-12-14T08:45:00Z''\<rparr>"

definition initial_heap :: "addr \<Rightarrow> dict" where
  "initial_heap =
     (\<lambda>a. [])
       (0 := [(''experts'', PList [PStr [0xBB3C, 0xB9AC, 0xCE58, 0xB8CC, 0xC0AC], PStr [0xC6B4, 0xB3D9, 0xC804, 0xBB38, 0xAC00]]),
              (''quality_score'', PFloat 0.95)],
        1 := [(''experts'', PList [PStr [0xC7AC, 0xC815, 0xC804, 0xBB38, 0xAC00], PStr [0xD22C, 0xC790, 0xCEE8, 0xC124, 0xD134,
                                                                                        0xD2B8]]),
              (''quality_score'', PFloat 0.92)],
        2 := [(''experts'', PList [PStr [0xD53C, 0xBD80, 0xACFC, 0xC804, 0xBB38, 0xC758], PStr [0xD654, 0xC7A5, 0xD488, 0xC5F0, 0xAD6C,
                                                                                                0xC6D0]]),
              (''quality_score'', PFloat 0.93)])"

definition initialize_mock_data :: "ExpertDocument list" where
  "initialize_mock_data = [health_neck_001, finance_budget_001, skincare_acne_001]"

text \<open>
  \<open>_calculate_mock_similarity\<close> (lines 386-407): the first keyword rule that
  matches gives the score.
\<close>

definition calculate_mock_similarity :: "pystr \<Rightarrow> str \<Rightarrow> str \<Rightarrow> real" where
  "calculate_mock_similarity U query content' =
     (let query_lower = str_lower U query;
          content_lower = str_lower U content'
      in if sublist [0xBAA9] query_lower \<and> sublist [0xBAA9] content_lower then 0.9
         else if sublist [0xD1B5, 0xC99D] query_lower \<and> sublist [0xD1B5, 0xC99D] content_lower then 0.85
         else if sublist [0xC6B4, 0xB3D9] query_lower
                 \<and> (sublist [0xC6B4, 0xB3D9] content_lower \<or> sublist [0xC2A4, 0xD2B8, 0xB808, 0xCE6D] content_lower) then 0.8
         else if sublist [0xC608, 0xC0B0] query_lower \<and> sublist [0xC608, 0xC0B0] content_lower then 0.9
         else if sublist [0xB3C8] query_lower
                 \<and> (sublist [0xC608, 0xC0B0] content_lower \<or> sublist [0xC7AC, 0xC815] content_lower) then 0.85
         else if sublist [0xD53C, 0xBD80] query_lower \<and> sublist [0xD53C, 0xBD80] content_lower then 0.9
         else if sublist [0xC5EC, 0xB4DC, 0xB984] query_lower \<and> sublist [0xC5EC, 0xB4DC, 0xB984] content_lower then 0.95
         else 0.3)"

text \<open>
  \<open>find_similar_documents\<close> (lines 362-384). The loop writes the score into the
  dictionary of every document that reaches the threshold and collects the document; the
  collected documents are then sorted by the score read back from their dictionaries,
  highest first (\<open>reverse=True\<close> reverses each comparison and the sort is stable, which
  is \<^const>\<open>sort_key\<close> on the negated score), and cut at \<open>limit\<close>. Every collected
  document has a float under \<open>"similarity_score"\<close> (lemma \<open>find_similar_float\<close>), so the
  other cases of \<open>score_key\<close> are never reached.
\<close>

fun find_similar_loop ::
  "pystr \<Rightarrow> str \<Rightarrow> real \<Rightarrow> ExpertDocument list \<Rightarrow> (addr \<Rightarrow> dict) \<Rightarrow> ExpertDocument list
     \<Rightarrow> (addr \<Rightarrow> dict) \<times> ExpertDocument list" where
  "find_similar_loop U query threshold [] h results = (h, results)"
| "find_similar_loop U query threshold (doc # docs) h results =
     (let similarity = calculate_mock_similarity U query (content doc) in
      if similarity \<ge> threshold
      then find_similar_loop U query threshold docs
             (h(metadata doc := AList.update ''similarity_score'' (PFloat similarity) (h (metadata doc))))
             (results @ [doc])
      else find_similar_loop U query threshold docs h results)"

definition score_key :: "(addr \<Rightarrow> dict) \<Rightarrow> ExpertDocument \<Rightarrow> real" where
  "score_key h x =
     (case map_of (h (metadata x)) ''similarity_score'' of Some (PFloat r) \<Rightarrow> r | _ \<Rightarrow> 0)"

definition find_similar_documents ::
  "pystr \<Rightarrow> system \<Rightarrow> str \<Rightarrow> real \<Rightarrow> int \<Rightarrow> ExpertDocument list \<times> system" where
  "find_similar_documents U s query threshold limit =
     (case find_similar_loop U query threshold (mock_documents s) (heap s) [] of
        (h, results) \<Rightarrow>
          (slice_to limit (sort_key (\<lambda>x. - score_key h x) results), s\<lparr>heap := h\<rparr>))"

text \<open>\<open>index_document\<close> (lines 409-414).\<close>

definition index_document :: "system \<Rightarrow> ExpertDocument \<Rightarrow> system" where
  "index_document s document = s\<lparr>mock_documents := mock_documents s @ [document]\<rparr>"

section \<open>KendraClient\<close>

text \<open>\<open>search_trusted_sources\<close> (lines 423-477).\<close>

definition mock_sources :: "(str \<times> TrustedSource list) list" where
  "mock_sources =
     [(ascii ''health'',
       [\<lparr>src_title = (ascii ''Neck Pain Relief Exercises - NIH Guidelines''),
         src_content = (ascii ''The National Institute of Health recommends gentle neck rotations held for 15 seconds, performed 3-5 times daily for optimal neck pain relief.''),
         src_source = (ascii ''https://www.nih.gov/neck-pain-relief''),
         src_confidence = (ascii ''VERY_HIGH'')\<rparr>,
        \<lparr>src_title = (ascii ''Physical Therapy for Cervical Pain - Mayo Clinic''),
         src_content = (ascii ''Mayo Clinic research shows that progressive neck strengthening exercises significantly reduce chronic neck pain when performed consistently.''),
         src_source = (ascii ''https://www.mayoclinic.org/neck-exercises''),
         src_confidence = (ascii ''HIGH'')\<rparr>]),
      (ascii ''finance'',
       [\<lparr>src_title = (ascii ''Budget Planning Guidelines - Federal Reserve''),
         src_content = (ascii ''Federal Reserve economic data supports the 50/30/20 budgeting rule for young adults: 50% needs, 30% wants, 20% savings.''),
         src_source = (ascii ''https://www.federalreserve.gov/budget-guidelines''),
         src_confidence = (ascii ''VERY_HIGH'')\<rparr>,
        \<lparr>src_title = (ascii ''Young Adult Financial Planning - SEC''),
         src_content = (ascii ''SEC guidelines recommend starting emergency fund building and retirement savings in your 20s for long-term financial stability.''),
         src_source = (ascii ''https://www.sec.gov/young-adult-finance''),
         src_confidence = (ascii ''HIGH'')\<rparr>]),
      (ascii ''skincare'',
       [\<lparr>src_title = (ascii ''Acne Treatment Guidelines - FDA''),
         src_content = (ascii ''FDA approved acne treatments include salicylic acid and benzoyl peroxide. Start with lower concentrations to avoid irritation.''),
         src_source = (ascii ''https://www.fda.gov/acne-treatment''),
         src_confidence = (ascii ''VERY_HIGH'')\<rparr>,
        \<lparr>src_title = (ascii ''Dermatological Care - American Academy of Dermatology''),
         src_content = (ascii ''AAD recommends gentle cleansing twice daily and gradual introduction of active ingredients for effective acne management.''),
         src_source = (ascii ''https://www.aad.org/acne-care''),
         src_confidence = (ascii ''HIGH'')\<rparr>])]"

definition search_trusted_sources :: "str \<Rightarrow> str \<Rightarrow> TrustedSource list" where
  "search_trusted_sources query category =
     (case map_of mock_sources category of Some sources \<Rightarrow> sources | None \<Rightarrow> [])"

section \<open>StrandsAgentSystem\<close>

text \<open>
  \<open>StrandsAgentSystem._determine_category\<close> (lines 515-526), with its own keyword
  lists, which the source writes in place: neck, shoulder, waist, pain, health, exercise,
  stretching; money, budget, investment, savings, finances, banking; skin, skincare,
  cosmetics, acne.
\<close>

definition agent_health_words :: "str list" where
  "agent_health_words = [[0xBAA9], [0xC5B4, 0xAE68], [0xD5C8, 0xB9AC], [0xD1B5, 0xC99D], [0xAC74, 0xAC15], [0xC6B4, 0xB3D9], [0xC2A4, 0xD2B8, 0xB808, 0xCE6D]]"

definition agent_finance_words :: "str list" where
  "agent_finance_words = [[0xB3C8], [0xC608, 0xC0B0], [0xD22C, 0xC790], [0xC800, 0xCD95], [0xC7AC, 0xC815], [0xAE08, 0xC735]]"

definition agent_skincare_words :: "str list" where
  "agent_skincare_words = [[0xD53C, 0xBD80], [0xC2A4, 0xD0A8, 0xCF00, 0xC5B4], [0xD654, 0xC7A5, 0xD488], [0xC5EC, 0xB4DC, 0xB984]]"

definition agent_determine_category :: "pystr \<Rightarrow> str \<Rightarrow> str" where
  "agent_determine_category U content' =
     (let content_lower = str_lower U content' in
      if list_ex (\<lambda>word. sublist word content_lower) agent_health_words
      then ascii ''health''
      else if list_ex (\<lambda>word. sublist word content_lower) agent_finance_words
      then ascii ''finance''
      else if list_ex (\<lambda>word. sublist word content_lower) agent_skincare_words
      then ascii ''skincare''
      else ascii ''health'')"

text \<open>
  \<open>_generate_mock_expert_content\<close> (lines 528-569). The template starts with a line
  break and ends with a line break and eight blanks, which the final \<open>strip()\<close>
  removes; what it leaves starts with \<open>#\<close> and ends with \<open>*\<close>.
\<close>

definition sources_summary :: "TrustedSource list \<Rightarrow> str" where
  "sources_summary trusted_sources =
     join [0xA]
       (map (\<lambda>source. (ascii ''- '') @ src_title source @ (ascii '': '') @ take 100 (src_content source) @ (ascii ''...''))
          trusted_sources)"

definition generate_mock_expert_content ::
  "pystr \<Rightarrow> UserFeedback \<Rightarrow> TrustedSource list \<Rightarrow> str \<Rightarrow> str" where
  "generate_mock_expert_content U user_feedback trusted_sources category =
     (ascii ''# '') @ str_title U category
     @ [0x20, 0xC804, 0xBB38, 0xAC00, 0x20, 0xD611, 0xC5C5, 0x20, 0xBB38, 0xC11C, 0xA, 0xA,
        0x23, 0x23, 0x20, 0xC0AC, 0xC6A9, 0xC790, 0x20, 0xC694, 0xCCAD, 0x20, 0xBD84, 0xC11D,
        0xA]
     @ fb_content user_feedback
     @ [0xA, 0xA, 0x23, 0x23, 0x20, 0xC2E0, 0xB8B0, 0xD560, 0x20, 0xC218, 0x20, 0xC788, 0xB294,
        0x20, 0xCD5C, 0xC2E0, 0x20, 0xC815, 0xBCF4, 0xA]
     @ sources_summary trusted_sources
     @ [0xA, 0xA, 0x23, 0x23, 0x20, 0xC804, 0xBB38, 0xAC00, 0x20, 0xD300, 0x20, 0xD611, 0xC5C5,
        0x20, 0xACB0, 0xACFC, 0xA, 0xA, 0x23, 0x23, 0x23, 0x20, 0x31, 0x2E, 0x20, 0xC218,
        0xC11D, 0x20, 0xC804, 0xBB38, 0xAC00, 0x20, 0xBD84, 0xC11D, 0xA, 0xC0AC, 0xC6A9, 0xC790,
        0xC758, 0x20, 0xC694, 0xCCAD, 0xC744, 0x20, 0xC885, 0xD569, 0xC801, 0xC73C, 0xB85C,
        0x20, 0xBD84, 0xC11D, 0xD55C, 0x20, 0xACB0, 0xACFC, 0x2C, 0x20, 0xB2E4, 0xC74C, 0xACFC,
        0x20, 0xAC19, 0xC740, 0x20, 0xC811, 0xADFC, 0xC774, 0x20, 0xD544, 0xC694, 0xD569,
        0xB2C8, 0xB2E4, 0x3A, 0xA, 0x2D, 0x20, 0xACFC, 0xD559, 0xC801, 0x20, 0xADFC, 0xAC70,
        0x20, 0xAE30, 0xBC18, 0xC758, 0x20, 0xC548, 0xC804, 0xD55C, 0x20, 0xBC29, 0xBC95, 0xA,
        0x2D, 0x20, 0xAC1C, 0xC778, 0xC758, 0x20, 0xC0C1, 0xD669, 0xC5D0, 0x20, 0xB9DE, 0xB294,
        0x20, 0xB9DE, 0xCDA4, 0xD615, 0x20, 0xC194, 0xB8E8, 0xC158, 0xA, 0x2D, 0x20, 0xC810,
        0xC9C4, 0xC801, 0xC774, 0xACE0, 0x20, 0xC9C0, 0xC18D, 0x20, 0xAC00, 0xB2A5, 0xD55C,
        0x20, 0xC811, 0xADFC, 0xA, 0xA, 0x23, 0x23, 0x23, 0x20, 0x32, 0x2E, 0x20, 0xC2E4,
        0xBB34, 0x20, 0xC804, 0xBB38, 0xAC00, 0x20, 0xAD8C, 0xACE0, 0xC0AC, 0xD56D, 0xA, 0xAD6C,
        0xCCB4, 0xC801, 0xC778, 0x20, 0xC2E4, 0xD589, 0x20, 0xBC29, 0xBC95, 0x3A, 0xA, 0x2D,
        0x20, 0xB2E8, 0xACC4, 0xBCC4, 0x20, 0xC2E4, 0xD589, 0x20, 0xACC4, 0xD68D, 0xA, 0x2D,
        0x20, 0xC8FC, 0xC758, 0xC0AC, 0xD56D, 0x20, 0xBC0F, 0x20, 0xC548, 0xC804, 0x20, 0xC218,
        0xCE59, 0xA, 0x2D, 0x20, 0xD6A8, 0xACFC, 0x20, 0xCE21, 0xC815, 0x20, 0xBC29, 0xBC95,
        0xA, 0xA, 0x23, 0x23, 0x23, 0x20, 0x33, 0x2E, 0x20, 0xAC80, 0xC99D, 0x20, 0xC804,
        0xBB38, 0xAC00, 0x20, 0xC758, 0xACAC, 0xA, 0xC548, 0xC804, 0xC131, 0x20, 0xBC0F, 0x20,
        0xD6A8, 0xACFC, 0xC131, 0x20, 0xAC80, 0xD1A0, 0x3A, 0xA, 0x2D, 0x20, 0xACFC, 0xD559,
        0xC801, 0x20, 0xADFC, 0xAC70, 0x20, 0xD655, 0xC778, 0xA, 0x2D, 0x20, 0xBD80, 0xC791,
        0xC6A9, 0x20, 0xC704, 0xD5D8, 0x20, 0xD3C9, 0xAC00, 0xA, 0x2D, 0x20, 0xAC1C, 0xC120,
        0x20, 0xBC0F, 0x20, 0xC218, 0xC815, 0x20, 0xC0AC, 0xD56D, 0xA, 0xA, 0x23, 0x23, 0x20,
        0xCD5C, 0xC885, 0x20, 0xAD8C, 0xACE0, 0xC0AC, 0xD56D, 0xA, 0xC804, 0xBB38, 0xAC00, 0x20,
        0xD300, 0xC758, 0x20, 0xD569, 0xC758, 0xB41C, 0x20, 0xCD5C, 0xC885, 0x20, 0xAD8C,
        0xACE0, 0xC0AC, 0xD56D, 0xC73C, 0xB85C, 0x2C, 0x20, 0xC0AC, 0xC6A9, 0xC790, 0xAC00,
        0x20, 0xC548, 0xC804, 0xD558, 0xACE0, 0x20, 0xD6A8, 0xACFC, 0xC801, 0xC73C, 0xB85C,
        0x20, 0xC2E4, 0xD589, 0xD560, 0x20, 0xC218, 0x20, 0xC788, 0xB294, 0x20, 0xBC29, 0xBC95,
        0xC744, 0x20, 0xC81C, 0xC2DC, 0xD569, 0xB2C8, 0xB2E4, 0x2E, 0xA, 0xA, 0x2A, 0xBCF8,
        0x20, 0xBB38, 0xC11C, 0xB294, 0x20]
     @ str_of_nat (length trusted_sources)
     @ [0xAC1C, 0xC758, 0x20, 0xC2E0, 0xB8B0, 0xD560, 0x20, 0xC218, 0x20, 0xC788, 0xB294, 0x20,
        0xC18C, 0xC2A4, 0xC640, 0x20, 0xC804, 0xBB38, 0xAC00, 0x20, 0xD611, 0xC5C5, 0xC744,
        0x20, 0xD1B5, 0xD574, 0x20, 0xC0DD, 0xC131, 0xB418, 0xC5C8, 0xC2B5, 0xB2C8, 0xB2E4,
        0x2E, 0x2A]"

text \<open>
  \<open>create_expert_document\<close> (lines 487-513): the document gets a fresh metadata
  dictionary, at the next free address.
\<close>

definition create_expert_document ::
  "pystr \<Rightarrow> env \<Rightarrow> system \<Rightarrow> UserFeedback \<Rightarrow> TrustedSource list \<Rightarrow> ExpertDocument \<times> system" where
  "create_expert_document U e s user_feedback trusted_sources =
     (let category = agent_determine_category U (fb_content user_feedback);
          mock_expert_content =
            generate_mock_expert_content U user_feedback trusted_sources category;
          document =
            \<lparr>document_id = category @ ascii ''_'' @ now_stamp e,
             topic = category,
             content = mock_expert_content,
             metadata = next_addr s,
             quality_score = 0.94,
             created_at = now_created e\<rparr>
      in (document,
          s\<lparr>heap := (heap s)
                (next_addr s :=
                   [(''user_request'', PStr (fb_content user_feedback)),
                    (''trusted_sources_count'', PInt (int (length trusted_sources))),
                    (''expert_collaboration'', PBool True),
                    (''generated_by'', PStr (ascii ''mock_strands_agent''))]),
            next_addr := Suc (next_addr s)\<rparr>))"

section \<open>DynamoDBClient\<close>

text \<open>\<open>save_expert_document\<close> (lines 579-595).\<close>

definition save_expert_document :: "system \<Rightarrow> ExpertDocument \<Rightarrow> str \<times> system" where
  "save_expert_document s document =
     (document_id document,
      s\<lparr>mock_storage := AList.update (document_id document) document (mock_storage s)\<rparr>)"

section \<open>RAGQuestGenerator\<close>

text \<open>
  \<open>_generate_mock_quests\<close> (lines 622-725): the templates of the three categories,
  and one generic quest for any other category. The difficulties are the Korean words for
  easy, medium and hard.
\<close>

definition quest_templates :: "(str \<times> Quest list) list" where
  "quest_templates =
     [(ascii ''health'',
       [\<lparr>title = [0xC544, 0xCE68, 0x20, 0xBAA9, 0x20, 0xAE68, 0xC6B0, 0xAE30],
         if_condition = [0xB9E4, 0xC77C, 0x20, 0xC544, 0xCE68, 0x20, 0xAE30, 0xC0C1, 0x20,
                         0xC9C1, 0xD6C4],
         then_action = [0xBAA9, 0xC744, 0x20, 0xC88C, 0xC6B0, 0xB85C, 0x20, 0xCC9C, 0xCC9C,
                        0xD788, 0x20, 0x33, 0xD68C, 0xC529, 0x20, 0xB3CC, 0xB9AC, 0xACE0, 0x20,
                        0xD131, 0x20, 0xB2F9, 0xAE30, 0xAE30, 0x20, 0x31, 0x30, 0xCD08, 0x20,
                        0xC720, 0xC9C0],
         estimated_time = [0x33, 0xBD84],
         difficulty = [0xC26C, 0xC6C0],
         success_metric = [0xC77C, 0xC8FC, 0xC77C, 0xC5D0, 0x20, 0x35, 0xC77C, 0x20, 0xC774,
                           0xC0C1, 0x20, 0xC2E4, 0xD589],
         rag_evidence = [0xBB3C, 0xB9AC, 0xCE58, 0xB8CC, 0xD559, 0xD68C, 0x20, 0xAC00, 0xC774,
                         0xB4DC, 0xB77C, 0xC778, 0xC5D0, 0x20, 0xB530, 0xB978, 0x20, 0x31, 0x35,
                         0xCD08, 0x20, 0xC720, 0xC9C0, 0x20, 0xAD8C, 0xC7A5, 0xC0AC, 0xD56D]\<rparr>,
        \<lparr>title = [0xC5C5, 0xBB34, 0x20, 0xC911, 0x20, 0xBAA9, 0x20, 0xD734, 0xC2DD],
         if_condition = [0xCEF4, 0xD4E8, 0xD130, 0x20, 0xC791, 0xC5C5, 0x20, 0x32, 0xC2DC,
                         0xAC04, 0xB9C8, 0xB2E4],
         then_action = [0xC758, 0xC790, 0xC5D0, 0xC11C, 0x20, 0xBAA9, 0x20, 0xC2A4, 0xD2B8,
                        0xB808, 0xCE6D, 0xACFC, 0x20, 0xC5B4, 0xAE68, 0x20, 0xC73C, 0xC4F1,
                        0xD558, 0xAE30, 0x20, 0xAC01, 0x20, 0x31, 0x30, 0xCD08, 0xC529],
         estimated_time = [0x35, 0xBD84],
         difficulty = [0xBCF4, 0xD1B5],
         success_metric = [0xD558, 0xB8E8, 0x20, 0x33, 0xD68C, 0x20, 0xC774, 0xC0C1, 0x20,
                           0xC2E4, 0xD589],
         rag_evidence = [0xC7AC, 0xD65C, 0xC758, 0xD559, 0xACFC, 0x20, 0xC804, 0xBB38, 0xC758,
                         0x20, 0xAD8C, 0xACE0, 0xC0AC, 0xD56D]\<rparr>,
        \<lparr>title = [0xC800, 0xB141, 0x20, 0xBAA9, 0x20, 0xC774, 0xC644, 0x20, 0xB8E8,
                         0xD2F4],
         if_condition = [0xC7A0, 0xC790, 0xB9AC, 0xC5D0, 0x20, 0xB4E4, 0xAE30, 0x20, 0x33, 0x30,
                         0xBD84, 0x20, 0xC804],
         then_action = [0xBAA9, 0x20, 0xB9C8, 0xC0AC, 0xC9C0, 0xC640, 0x20, 0xC804, 0xCCB4,
                        0x20, 0xBAA9, 0x20, 0xC2A4, 0xD2B8, 0xB808, 0xCE6D, 0x20, 0xB8E8,
                        0xD2F4, 0x20, 0xC644, 0xC8FC],
         estimated_time = [0x31, 0x30, 0xBD84],
         difficulty = [0xC5B4, 0xB824, 0xC6C0],
         success_metric = [0xC8FC, 0x20, 0x34, 0xD68C, 0x20, 0xC774, 0xC0C1, 0x20, 0xC9C0,
                           0xC18D],
         rag_evidence = [0xC885, 0xD569, 0x20, 0xBAA9, 0x20, 0xAD00, 0xB9AC, 0x20, 0xC804,
                         0xBB38, 0xAC00, 0x20, 0xD611, 0xC5C5, 0x20, 0xBB38, 0xC11C]\<rparr>]),
      (ascii ''finance'',
       [\<lparr>title = [0xAC00, 0xACC4, 0xBD80, 0x20, 0xC791, 0xC131, 0x20, 0xC2DC, 0xC791],
         if_condition = [0xB9E4, 0xC77C, 0x20, 0xC800, 0xB141, 0x20, 0xC2DD, 0xC0AC, 0x20,
                         0xD6C4],
         then_action = [0xD558, 0xB8E8, 0x20, 0xC9C0, 0xCD9C, 0x20, 0xB0B4, 0xC5ED, 0xC744,
                        0x20, 0xC571, 0xC5D0, 0x20, 0xAE30, 0xB85D, 0xD558, 0xACE0, 0x20,
                        0xCE74, 0xD14C, 0xACE0, 0xB9AC, 0xBCC4, 0x20, 0xBD84, 0xB958],
         estimated_time = [0x35, 0xBD84],
         difficulty = [0xC26C, 0xC6C0],
         success_metric = [0x32, 0xC8FC, 0x20, 0xC5F0, 0xC18D, 0x20, 0xB9E4, 0xC77C, 0x20,
                           0xAE30, 0xB85D],
         rag_evidence = [0xAE08, 0xC735, 0xAC10, 0xB3C5, 0xC6D0, 0x20, 0xAC00, 0xACC4, 0xC7AC,
                         0xC815, 0x20, 0xAD00, 0xB9AC, 0x20, 0xAC00, 0xC774, 0xB4DC]\<rparr>,
        \<lparr>title = [0x35, 0x30, 0x2F, 0x33, 0x30, 0x2F, 0x32, 0x30, 0x20, 0xC608, 0xC0B0,
                         0x20, 0xACC4, 0xD68D],
         if_condition = [0xB9E4, 0xC6D4, 0x20, 0xCCAB, 0xC9F8, 0x20, 0xC8FC, 0x20, 0xC8FC,
                         0xB9D0],
         then_action = [0xC6D4, 0x20, 0xC218, 0xC785, 0x20, 0xAE30, 0xC900, 0x20, 0xC608,
                        0xC0B0, 0xC744, 0x20, 0x35, 0x30, 0x2F, 0x33, 0x30, 0x2F, 0x32, 0x30,
                        0xC73C, 0xB85C, 0x20, 0xACC4, 0xD68D, 0xD558, 0xACE0, 0x20, 0xBAA9,
                        0xD45C, 0x20, 0xC124, 0xC815],
         estimated_time = [0x33, 0x30, 0xBD84],
         difficulty = [0xBCF4, 0xD1B5],
         success_metric = [0x33, 0xAC1C, 0xC6D4, 0x20, 0xC5F0, 0xC18D, 0x20, 0xC608, 0xC0B0,
                           0x20, 0xB2EC, 0xC131, 0xB3C4, 0x20, 0x38, 0x30, 0x25, 0x20, 0xC774,
                           0xC0C1],
         rag_evidence = [0xC5F0, 0xBC29, 0xC900, 0xBE44, 0xC81C, 0xB3C4, 0x20, 0xACBD, 0xC81C,
                         0x20, 0xB370, 0xC774, 0xD130, 0x20, 0xAE30, 0xBC18, 0x20, 0xAD8C,
                         0xC7A5, 0xC0AC, 0xD56D]\<rparr>,
        \<lparr>title = [0xC751, 0xAE09, 0xC790, 0xAE08, 0x20, 0xB9CC, 0xB4E4, 0xAE30],
         if_condition = [0xB9E4, 0xC6D4, 0x20, 0xAE09, 0xC5EC, 0xC77C, 0x20, 0xB2E4, 0xC74C,
                         0xB0A0],
         then_action = [0xC6D4, 0x20, 0xC218, 0xC785, 0xC758, 0x20, 0x31, 0x30, 0x25, 0xB97C,
                        0x20, 0xBCC4, 0xB3C4, 0x20, 0xC801, 0xAE08, 0xC5D0, 0x20, 0xC790,
                        0xB3D9, 0xC774, 0xCCB4, 0x20, 0xC124, 0xC815],
         estimated_time = [0x31, 0x35, 0xBD84],
         difficulty = [0xC5B4, 0xB824, 0xC6C0],
         success_metric = [0x36, 0xAC1C, 0xC6D4, 0x20, 0xBD84, 0x20, 0xC0DD, 0xD65C, 0xBE44,
                           0x20, 0xC801, 0xB9BD, 0x20, 0xB2EC, 0xC131],
         rag_evidence = [0x53, 0x45, 0x43, 0x20, 0xC80A, 0xC740, 0x20, 0xC131, 0xC778, 0x20,
                         0xC7AC, 0xC815, 0xACC4, 0xD68D, 0x20, 0xAC00, 0xC774, 0xB4DC, 0xB77C,
                         0xC778]\<rparr>]),
      (ascii ''skincare'',
       [\<lparr>title = [0xAE30, 0xBCF8, 0x20, 0xC138, 0xC548, 0x20, 0xB8E8, 0xD2F4, 0x20,
                         0xC815, 0xCC29],
         if_condition = [0xC544, 0xCE68, 0xACFC, 0x20, 0xC800, 0xB141, 0x20, 0xC138, 0xC548,
                         0x20, 0xC2DC],
         then_action = [0xC21C, 0xD55C, 0x20, 0xC138, 0xC548, 0xC81C, 0xB85C, 0x20, 0xBBF8,
                        0xC9C0, 0xADFC, 0xD55C, 0x20, 0xBB3C, 0xC5D0, 0x20, 0x33, 0x30, 0xCD08,
                        0xAC04, 0x20, 0xBD80, 0xB4DC, 0xB7FD, 0xAC8C, 0x20, 0xC138, 0xC548],
         estimated_time = [0x33, 0xBD84],
         difficulty = [0xC26C, 0xC6C0],
         success_metric = [0x32, 0xC8FC, 0xAC04, 0x20, 0xD558, 0xB8E8, 0xB3C4, 0x20, 0xBE60,
                           0xC9D0, 0xC5C6, 0xC774, 0x20, 0xC2E4, 0xD589],
         rag_evidence = [0xBBF8, 0xAD6D, 0xD53C, 0xBD80, 0xACFC, 0xD559, 0xD68C, 0x20, 0xAE30,
                         0xBCF8, 0x20, 0xC138, 0xC548, 0x20, 0xAD8C, 0xACE0, 0xC0AC, 0xD56D]\<rparr>,
        \<lparr>title = [0xC0B4, 0xB9AC, 0xC2E4, 0xC0B0, 0x20, 0xC81C, 0xD488, 0x20, 0xB3C4,
                         0xC785],
         if_condition = [0xC800, 0xB141, 0x20, 0xC138, 0xC548, 0x20, 0xD6C4, 0x20, 0xC8FC, 0x20,
                         0x32, 0xD68C],
         then_action = [0x30, 0x2E, 0x35, 0x25, 0x20, 0xC0B4, 0xB9AC, 0xC2E4, 0xC0B0, 0x20,
                        0xC81C, 0xD488, 0xC744, 0x20, 0xBB38, 0xC81C, 0x20, 0xBD80, 0xC704,
                        0xC5D0, 0xB9CC, 0x20, 0xC810, 0x20, 0xBC1C, 0xB77C, 0x20, 0xC801,
                        0xC751, 0xC2DC, 0xD0A4, 0xAE30],
         estimated_time = [0x35, 0xBD84],
         difficulty = [0xBCF4, 0xD1B5],
         success_metric = [0x34, 0xC8FC, 0xAC04, 0x20, 0xBD80, 0xC791, 0xC6A9, 0x20, 0xC5C6,
                           0xC774, 0x20, 0xC0AC, 0xC6A9],
         rag_evidence = [0x46, 0x44, 0x41, 0x20, 0xC2B9, 0xC778, 0x20, 0xC5EC, 0xB4DC, 0xB984,
                         0x20, 0xCE58, 0xB8CC, 0x20, 0xC131, 0xBD84, 0x20, 0xAC00, 0xC774,
                         0xB4DC, 0xB77C, 0xC778]\<rparr>,
        \<lparr>title = [0xC885, 0xD569, 0x20, 0xC5EC, 0xB4DC, 0xB984, 0x20, 0xAD00, 0xB9AC,
                         0x20, 0xB8E8, 0xD2F4],
         if_condition = [0xB9E4, 0xC77C, 0x20, 0xC544, 0xCE68, 0x2C, 0x20, 0xC800, 0xB141],
         then_action = [0xC138, 0xC548, 0x20, 0x2192, 0x20, 0xD1A0, 0xB108, 0x20, 0x2192, 0x20,
                        0xC0B4, 0xB9AC, 0xC2E4, 0xC0B0, 0x20, 0xC81C, 0xD488, 0x20, 0x2192,
                        0x20, 0xBCF4, 0xC2B5, 0xC81C, 0x20, 0xC21C, 0xC11C, 0xB85C, 0x20,
                        0xC644, 0xC804, 0xD55C, 0x20, 0xB8E8, 0xD2F4],
         estimated_time = [0x31, 0x30, 0xBD84],
         difficulty = [0xC5B4, 0xB824, 0xC6C0],
         success_metric = [0x33, 0xAC1C, 0xC6D4, 0x20, 0xC5F0, 0xC18D, 0x20, 0xD53C, 0xBD80,
                           0x20, 0xC0C1, 0xD0DC, 0x20, 0xAC1C, 0xC120],
         rag_evidence = [0xD53C, 0xBD80, 0xACFC, 0x20, 0xC804, 0xBB38, 0xC758, 0x20, 0xD611,
                         0xC5C5, 0x20, 0xC885, 0xD569, 0x20, 0xAD00, 0xB9AC, 0x20, 0xD504,
                         0xB85C, 0xD1A0, 0xCF5C]\<rparr>])]"

definition generic_quest :: Quest where
  "generic_quest =
     \<lparr>title = [0xAE30, 0xBCF8, 0x20, 0xC2E4, 0xCC9C, 0xD558, 0xAE30],
      if_condition = [0xC801, 0xC808, 0xD55C, 0x20, 0xC2DC, 0xAC04, 0xC5D0],
      then_action = [0xAD00, 0xB828, 0x20, 0xAE30, 0xBCF8, 0x20, 0xD589, 0xB3D9, 0x20, 0xC2E4,
                     0xD589],
      estimated_time = [0x35, 0xBD84],
      difficulty = [0xC26C, 0xC6C0],
      success_metric = [0xAFB8, 0xC900, 0xD55C, 0x20, 0xC2E4, 0xD589],
      rag_evidence = [0xC804, 0xBB38, 0xAC00, 0x20, 0xAE30, 0xBCF8, 0x20, 0xAD8C, 0xACE0,
                      0xC0AC, 0xD56D]\<rparr>"

definition generate_mock_quests :: "str \<Rightarrow> str \<Rightarrow> Quest list" where
  "generate_mock_quests category user_content =
     (case map_of quest_templates category of
        Some template \<Rightarrow> template
      | None \<Rightarrow> [generic_quest])"

text \<open>
  \<open>generate_from_documents\<close> (lines 605-620); the value is the list under the key
  \<open>"quests"\<close> of the dictionary it returns.
\<close>

definition generate_from_documents :: "ExpertDocument list \<Rightarrow> UserFeedback \<Rightarrow> Quest list" where
  "generate_from_documents documents user_feedback =
     (case documents of
        [] \<Rightarrow> []
      | primary_doc # _ \<Rightarrow> generate_mock_quests (topic primary_doc) (fb_content user_feedback))"

section \<open>SmartQuestSystem: the pipeline\<close>

text \<open>
  \<open>_initialize_components\<close> (lines 79-118) builds the five clients and sets
  \<open>system_ready\<close>; when a constructor raises, the exception is caught and the flag stays
  false. A system that is not ready answers every request before touching a client, so the
  clients of such a system are modelled as those of a ready one.
\<close>

definition initialize_components :: "str option \<Rightarrow> system" where
  "initialize_components raised =
     \<lparr>system_ready = (raised = None),
      heap = initial_heap,
      next_addr = 3,
      mock_documents = initialize_mock_data,
      mock_storage = []\<rparr>"

text \<open>
  \<open>_evaluate_similarity\<close> (lines 178-201). The score is printed with the format
  \<open>.3f\<close> before it is compared, which raises for a value that is not a number.
\<close>

definition format_3f :: "pyval \<Rightarrow> str + real" where
  "format_3f v =
     (case v of
        PFloat r \<Rightarrow> Inr r
      | PInt i \<Rightarrow> Inr (of_int i)
      | PBool b \<Rightarrow> Inr (if b then 1 else 0)
      | PStr _ \<Rightarrow> Inl [0x55, 0x6E, 0x6B, 0x6E, 0x6F, 0x77, 0x6E, 0x20, 0x66, 0x6F,
                                  0x72, 0x6D, 0x61, 0x74, 0x20, 0x63, 0x6F, 0x64, 0x65, 0x20,
                                  0x27, 0x66, 0x27, 0x20, 0x66, 0x6F, 0x72, 0x20, 0x6F, 0x62,
                                  0x6A, 0x65, 0x63, 0x74, 0x20, 0x6F, 0x66, 0x20, 0x74, 0x79,
                                  0x70, 0x65, 0x20, 0x27, 0x73, 0x74, 0x72, 0x27]
      | PList _ \<Rightarrow> Inl (ascii ''unsupported format string passed to list.__format__''))"

definition evaluate_similarity ::
  "(addr \<Rightarrow> dict) \<Rightarrow> ExpertDocument list \<Rightarrow> UserFeedback \<Rightarrow> str + bool" where
  "evaluate_similarity h similar_docs feedback =
     (case similar_docs of
        [] \<Rightarrow> Inr False
      | best_match # _ \<Rightarrow>
          (case format_3f (dict_get (h (metadata best_match)) ''similarity_score'' (PFloat 0.0)) of
             Inl raised \<Rightarrow> Inl raised
           | Inr similarity_score \<Rightarrow>
               if similarity_score \<ge> 0.85 then Inr True
               else if similarity_score \<ge> 0.70 then Inr (length similar_docs \<ge> 2)
               else Inr False))"

text \<open>The dictionary both \<open>except\<close> handlers return (lines 172-176 and 284-288).\<close>

definition failure :: "pystr \<Rightarrow> UserFeedback \<Rightarrow> str \<Rightarrow> PipelineResult" where
  "failure U feedback raised =
     no_keys\<lparr>success := False, error := Some raised,
       fallback_quest := Some (create_fallback_quest U feedback)\<rparr>"

text \<open>
  \<open>_create_new_expert_document_and_quest\<close> (lines 232-288): five awaited calls in a
  row inside one \<open>try\<close>; the first that raises ends the function with the failure
  dictionary, and the state keeps what the earlier calls did.
\<close>

definition create_new_expert_document_and_quest ::
  "pystr \<Rightarrow> env \<Rightarrow> system \<Rightarrow> UserFeedback \<Rightarrow> PipelineResult \<times> system" where
  "create_new_expert_document_and_quest U e s feedback =
     (case raise_search_trusted e of
        Some raised \<Rightarrow> (failure U feedback raised, s)
      | None \<Rightarrow>
     let trusted_sources =
           search_trusted_sources (fb_content feedback)
             (determine_category U (fb_content feedback)) in
     (case raise_create_expert e of
        Some raised \<Rightarrow> (failure U feedback raised, s)
      | None \<Rightarrow>
     (case create_expert_document U e s feedback trusted_sources of
        (expert_document', s1) \<Rightarrow>
     (case raise_save e of
        Some raised \<Rightarrow> (failure U feedback raised, s1)
      | None \<Rightarrow>
     (case save_expert_document s1 expert_document' of
        (document_id', s2) \<Rightarrow>
     (case raise_index e of
        Some raised \<Rightarrow> (failure U feedback raised, s2)
      | None \<Rightarrow>
     let s3 = index_document s2 expert_document' in
     (case raise_generate_new e of
        Some raised \<Rightarrow> (failure U feedback raised, s3)
      | None \<Rightarrow>
     let quest_result = generate_from_documents [expert_document'] feedback in
     (no_keys\<lparr>success := True,
        res_method := Some (ascii ''new_expert_document''),
        res_document_id := Some document_id',
        expert_document := Some expert_document',
        quests := Some quest_result,
        res_metadata := Some
          [(''processing_time'', PStr (now_processed e)),
           (''trusted_sources_count'', PInt (int (length trusted_sources))),
           (''expert_collaboration'', PBool True)]\<rparr>,
      s3))))))))"

text \<open>
  \<open>_generate_quest_from_existing\<close> (lines 203-230): when the generator raises, the
  handler runs the new-document path.
\<close>

definition generate_quest_from_existing ::
  "pystr \<Rightarrow> env \<Rightarrow> system \<Rightarrow> ExpertDocument list \<Rightarrow> UserFeedback \<Rightarrow> PipelineResult \<times> system" where
  "generate_quest_from_existing U e s similar_docs feedback =
     (case raise_generate_existing e of
        Some raised \<Rightarrow> create_new_expert_document_and_quest U e s feedback
      | None \<Rightarrow>
          let result = generate_from_documents similar_docs feedback in
          (no_keys\<lparr>success := True,
             res_method := Some (ascii ''existing_documents''),
             documents_used := Some (length similar_docs),
             quests := Some result,
             res_metadata := Some
               [(''processing_time'', PStr (now_processed e)),
                (''similarity_scores'',
                 PList (map (\<lambda>doc. dict_get (heap s (metadata doc)) ''similarity_score'' (PInt 0))
                          similar_docs))]\<rparr>,
           s))"

text \<open>\<open>process_user_feedback\<close> (lines 131-176).\<close>

definition process_user_feedback ::
  "pystr \<Rightarrow> env \<Rightarrow> system \<Rightarrow> UserFeedback \<Rightarrow> PipelineResult \<times> system" where
  "process_user_feedback U e s feedback =
     (if \<not> system_ready s
      then (no_keys\<lparr>success := False, error := Some [0xC2DC, 0xC2A4, 0xD15C, 0xC774, 0x20,
                                                            0xC900, 0xBE44, 0xB418, 0xC9C0, 0x20,
                                                            0xC54A, 0xC558, 0xC2B5, 0xB2C8, 0xB2E4,
                                                            0x2E]\<rparr>, s)
      else
     (case raise_find_similar e of
        Some raised \<Rightarrow> (failure U feedback raised, s)
      | None \<Rightarrow>
     (case find_similar_documents U s (fb_content feedback) 0.7 5 of
        (similar_docs, s1) \<Rightarrow>
     (case evaluate_similarity (heap s1) similar_docs feedback of
        Inl raised \<Rightarrow> (failure U feedback raised, s1)
      | Inr sufficient_match \<Rightarrow>
          if sufficient_match
          then generate_quest_from_existing U e s1 similar_docs feedback
          else create_new_expert_document_and_quest U e s1 feedback))))"

text \<open>
  The states a system goes through: it starts from \<open>initialize_components\<close> and
  answers one request after another, each in an environment that satisfies \<open>P\<close>.
\<close>

inductive reachable :: "pystr \<Rightarrow> (env \<Rightarrow> bool) \<Rightarrow> system \<Rightarrow> bool"
  for U :: pystr and P :: "env \<Rightarrow> bool" where
  start: "reachable U P (initialize_components None)"
| request: "reachable U P s \<Longrightarrow> P e \<Longrightarrow> reachable U P (snd (process_user_feedback U e s feedback))"

section \<open>Names used in the statements\<close>

text \<open>
  The three difficulty values of the quest templates (the Korean words for easy, medium
  and hard), and the three categories that have a template.
\<close>

definition easy :: str where
  "easy = [0xC26C, 0xC6C0]"

definition medium :: str where
  "medium = [0xBCF4, 0xD1B5]"

definition hard :: str where
  "hard = [0xC5B4, 0xB824, 0xC6C0]"

definition categories :: "str set" where
  "categories = {ascii ''health'', ascii ''finance'', ascii ''skincare''}"

text \<open>
  The documents that the loop of \<open>find_similar_documents\<close> collects for a query: those
  of the index that reach the threshold, in the order of the index.
\<close>

definition candidates :: "pystr \<Rightarrow> str \<Rightarrow> real \<Rightarrow> ExpertDocument list \<Rightarrow> ExpertDocument list" where
  "candidates U query threshold docs =
     filter (\<lambda>doc. threshold \<le> calculate_mock_similarity U query (content doc)) docs"

text \<open>
  A feedback as \<open>main\<close> builds it from a line of input (lines 764-768), and an
  environment in which no call raises, with a fixed clock.
\<close>

definition test_feedback :: "str \<Rightarrow> UserFeedback" where
  "test_feedback user_input =
     \<lparr>fb_content = user_input,
      fb_timestamp = ascii ''2025-01-01T12:00:00'',
      fb_user_id = Some (ascii ''test_user''),
      fb_category_hint = None\<rparr>"

definition calm :: env where
  "calm =
     \<lparr>now_stamp = ascii ''20250101_120000'',
      now_created = ascii ''2025-01-01T12:00:00.000001'',
      now_processed = ascii ''2025-01-01T12:00:00.000002'',
      raise_find_similar = None,
      raise_generate_existing = None,
      raise_search_trusted = None,
      raise_create_expert = None,
      raise_save = None,
      raise_index = None,
      raise_generate_new = None\<rparr>"

section \<open>Basic facts\<close>

lemma ascii_eq_iff [simp]: "ascii s = ascii t \<longleftrightarrow> s = t"
  by (simp add: ascii_def inj_map_eq_map inj_on_def)

text \<open>Evaluating the model on the seeded documents, with the Basic Latin case mapping.\<close>

lemma latin_lower [simp]: "str_lower latin s = map to_lower s"
  by (simp add: latin_def)

lemma to_lower_numeral [simp]:
  "to_lower (numeral n) = (if is_upper (numeral n) then numeral n + 32 else numeral n)"
  by (simp add: to_lower_def)

lemmas str_eval = is_upper_def sublist_Cons_right

lemma seed_fields [simp]:
  "document_id health_neck_001 = ascii ''health_neck_001''"
  "document_id finance_budget_001 = ascii ''finance_budget_001''"
  "document_id skincare_acne_001 = ascii ''skincare_acne_001''"
  "topic health_neck_001 = ascii ''health''"
  "topic finance_budget_001 = ascii ''finance''"
  "topic skincare_acne_001 = ascii ''skincare''"
  "metadata health_neck_001 = 0"
  "metadata finance_budget_001 = 1"
  "metadata skincare_acne_001 = 2"
  by (simp_all add: health_neck_001_def finance_budget_001_def skincare_acne_001_def)

lemma sim_neck:
  "calculate_mock_similarity latin [0xBAA9] (content health_neck_001) = 0.9"
  "calculate_mock_similarity latin [0xBAA9] (content finance_budget_001) = 0.3"
  "calculate_mock_similarity latin [0xBAA9] (content skincare_acne_001) = 0.3"
  by (simp_all add: calculate_mock_similarity_def health_neck_001_def finance_budget_001_def
      skincare_acne_001_def str_eval)

lemma init_fields [simp]:
  "system_ready (initialize_components r) = (r = None)"
  "heap (initialize_components r) = initial_heap"
  "next_addr (initialize_components r) = 3"
  "mock_documents (initialize_components r) =
     [health_neck_001, finance_budget_001, skincare_acne_001]"
  "mock_storage (initialize_components r) = []"
  by (simp_all add: initialize_components_def initialize_mock_data_def)

lemma index_document_fields [simp]:
  "system_ready (index_document s d) = system_ready s"
  "heap (index_document s d) = heap s"
  "next_addr (index_document s d) = next_addr s"
  "mock_documents (index_document s d) = mock_documents s @ [d]"
  "mock_storage (index_document s d) = mock_storage s"
  by (simp_all add: index_document_def)

section \<open>The quest generator\<close>

lemma map_of_quest_templates:
  "map_of quest_templates c =
     (if c = ascii ''health'' then Some (snd (quest_templates ! 0))
      else if c = ascii ''finance'' then Some (snd (quest_templates ! 1))
      else if c = ascii ''skincare'' then Some (snd (quest_templates ! 2))
      else None)"
  by (simp add: quest_templates_def)

lemma template_difficulties:
  "map (map difficulty \<circ> snd) quest_templates =
     [[easy, medium, hard], [easy, medium, hard], [easy, medium, hard]]"
  by (simp add: quest_templates_def easy_def medium_def hard_def)

lemma generate_mock_quests_known:
  "c \<in> categories \<Longrightarrow> map difficulty (generate_mock_quests c u) = [easy, medium, hard]"
  using template_difficulties
  by (auto simp: generate_mock_quests_def map_of_quest_templates categories_def quest_templates_def)

lemma generate_mock_quests_unknown:
  "c \<notin> categories \<Longrightarrow> generate_mock_quests c u = [generic_quest]"
  by (simp add: generate_mock_quests_def map_of_quest_templates categories_def)

lemma length_generate_mock_quests_known:
  "c \<in> categories \<Longrightarrow> length (generate_mock_quests c u) = 3"
proof -
  assume "c \<in> categories"
  then have "length (map difficulty (generate_mock_quests c u)) = 3"
    by (simp add: generate_mock_quests_known)
  then show ?thesis by simp
qed

text \<open>
  C3. \<open>generate_from_documents\<close> has no failing case: an empty document list gives
  no quest; a list whose first document has one of the three template categories gives
  three quests with the difficulties easy, medium, hard in this order; any other category
  gives the one generic quest, which is easy. The number of quests is 0, 1 or 3, and it is
  not 0 for a non-empty list.
\<close>

theorem generate_from_documents_total:
  "generate_from_documents [] fb = []
   \<and> (topic d \<in> categories \<longrightarrow>
        map difficulty (generate_from_documents (d # ds) fb) = [easy, medium, hard])
   \<and> (topic d \<notin> categories \<longrightarrow>
        generate_from_documents (d # ds) fb = [generic_quest] \<and> difficulty generic_quest = easy)
   \<and> length (generate_from_documents docs fb) \<in> {0, 1, 3}
   \<and> (docs \<noteq> [] \<longrightarrow> length (generate_from_documents docs fb) \<in> {1, 3})"
proof -
  have unknown: "c \<notin> categories \<Longrightarrow> length (generate_mock_quests c u) = 1" for c u
    by (simp add: generate_mock_quests_unknown)
  have len: "length (generate_from_documents docs fb) \<in> {0, 1, 3}"
    using length_generate_mock_quests_known unknown
    by (cases docs) (auto simp: generate_from_documents_def)
  have len': "docs \<noteq> [] \<Longrightarrow> length (generate_from_documents docs fb) \<in> {1, 3}"
    using length_generate_mock_quests_known unknown
    by (cases docs) (auto simp: generate_from_documents_def)
  show ?thesis
    using len len'
    by (simp add: generate_from_documents_def generate_mock_quests_known
        generate_mock_quests_unknown generic_quest_def easy_def)
qed

theorem generate_from_documents_total_witness:
  "map difficulty
     (generate_from_documents [health_neck_001, finance_budget_001] (test_feedback [0xBAA9]))
     = [easy, medium, hard]
   \<and> generate_from_documents [health_neck_001\<lparr>topic := ascii ''travel''\<rparr>] (test_feedback [0xBAA9])
     = [generic_quest]
   \<and> length (generate_from_documents [skincare_acne_001] (test_feedback [0xBAA9])) \<in> {1, 3}"
proof -
  have known: "topic health_neck_001 \<in> categories"
    by (simp add: health_neck_001_def categories_def)
  have unknown: "topic (health_neck_001\<lparr>topic := ascii ''travel''\<rparr>) \<notin> categories"
    by (simp add: categories_def)
  show ?thesis
    using known unknown
      generate_from_documents_total
        [of "test_feedback [0xBAA9]" health_neck_001 "[finance_budget_001]" "[skincare_acne_001]"]
      generate_from_documents_total
        [of "test_feedback [0xBAA9]" "health_neck_001\<lparr>topic := ascii ''travel''\<rparr>" "[]" "[]"]
    by simp
qed

section \<open>The two classifiers\<close>

text \<open>
  C9. The classifier of \<open>SmartQuestSystem\<close>, which chooses the trusted sources, and
  the classifier of \<open>StrandsAgentSystem\<close>, which tags the new document, are not the
  same function: the second lacks the keywords body, stocks, fund, face washing, lotion and
  cream. On the feedback that is the word for stocks (U+C8FC U+C2DD) the first answers
  finance and the second answers health.
\<close>

theorem classifiers_differ:
  "determine_category latin [0xC8FC, 0xC2DD] = ascii ''finance''
   \<and> agent_determine_category latin [0xC8FC, 0xC2DD] = ascii ''health''"
  by (simp add: determine_category_def agent_determine_category_def health_keywords_def
      finance_keywords_def skincare_keywords_def agent_health_words_def
      agent_finance_words_def agent_skincare_words_def str_eval)

section \<open>Indexing\<close>

text \<open>
  C5 as stated fails: \<open>index_document\<close> appends. After indexing twice a copy of the
  neck document under a new identifier, a search for the word neck returns that identifier
  twice.
\<close>

theorem reindex_twice_counterexample:
  "map document_id
     (fst (find_similar_documents latin
        (index_document
           (index_document (initialize_components None)
              (health_neck_001\<lparr>document_id := ascii ''health_20250101_120000'', metadata := 3\<rparr>))
           (health_neck_001\<lparr>document_id := ascii ''health_20250101_120000'', metadata := 3\<rparr>))
        [0xBAA9] 0.7 5))
   = [ascii ''health_neck_001'', ascii ''health_20250101_120000'',
      ascii ''health_20250101_120000'']"
  by (simp add: find_similar_documents_def sim_neck score_key_def slice_to_def initial_heap_def
      Let_def)

text \<open>
  C5, amended. Every call of \<open>index_document\<close> adds one entry: after two calls with
  the same document the index holds two more entries with its identifier than before.
\<close>

theorem index_document_appends:
  "length (filter (\<lambda>x. document_id x = document_id d)
             (mock_documents (index_document (index_document s d) d)))
   = length (filter (\<lambda>x. document_id x = document_id d) (mock_documents s)) + 2"
  by simp

section \<open>Similarity search\<close>

lemma loop_results:
  "snd (find_similar_loop U q t docs h rs)
     = rs @ filter (\<lambda>d. t \<le> calculate_mock_similarity U q (content d)) docs"
  by (induction docs arbitrary: h rs) (simp_all add: Let_def)

lemma loop_other_keys:
  "k \<noteq> ''similarity_score'' \<Longrightarrow>
     map_of (fst (find_similar_loop U q t docs h rs) a) k = map_of (h a) k"
  by (induction docs arbitrary: h rs) (simp_all add: Let_def update_conv')

lemma loop_untouched:
  "\<forall>d\<in>set docs. metadata d = a \<longrightarrow> calculate_mock_similarity U q (content d) < t \<Longrightarrow>
     fst (find_similar_loop U q t docs h rs) a = h a"
  by (induction docs arbitrary: h rs) (auto simp: Let_def)

lemma loop_keeps_floats:
  "\<exists>r. map_of (h a) ''similarity_score'' = Some (PFloat r) \<Longrightarrow>
     \<exists>r. map_of (fst (find_similar_loop U q t docs h rs) a) ''similarity_score'' = Some (PFloat r)"
  by (induction docs arbitrary: h rs) (simp_all add: Let_def update_conv')

lemma loop_writes_float:
  "d \<in> set docs \<Longrightarrow> t \<le> calculate_mock_similarity U q (content d) \<Longrightarrow>
     \<exists>r. map_of (fst (find_similar_loop U q t docs h rs) (metadata d)) ''similarity_score''
           = Some (PFloat r)"
proof (induction docs arbitrary: h rs)
  case Nil
  then show ?case by simp
next
  case (Cons doc docs)
  show ?case
  proof (cases "d = doc")
    case True
    with Cons.prems show ?thesis
      by (simp add: Let_def loop_keeps_floats update_conv')
  next
    case False
    with Cons.prems have "d \<in> set docs" by simp
    from Cons.IH [OF this Cons.prems(2)] show ?thesis
      by (simp add: Let_def)
  qed
qed

lemma loop_score:
  "distinct (map metadata docs) \<Longrightarrow> d \<in> set docs \<Longrightarrow>
   t \<le> calculate_mock_similarity U q (content d) \<Longrightarrow>
     map_of (fst (find_similar_loop U q t docs h rs) (metadata d)) ''similarity_score''
       = Some (PFloat (calculate_mock_similarity U q (content d)))"
proof (induction docs arbitrary: h rs)
  case Nil
  then show ?case by simp
next
  case (Cons doc docs)
  show ?case
  proof (cases "d = doc")
    case True
    from Cons.prems(1) have "\<forall>x\<in>set docs. metadata x \<noteq> metadata doc"
      by (auto simp: image_iff)
    then have "\<forall>x\<in>set docs. metadata x = metadata doc
        \<longrightarrow> calculate_mock_similarity U q (content x) < t"
      by simp
    from loop_untouched [OF this] True Cons.prems(3) show ?thesis
      by (simp add: Let_def update_conv')
  next
    case False
    with Cons.prems have "d \<in> set docs" and "distinct (map metadata docs)" by simp_all
    from Cons.IH [OF this(2) this(1) Cons.prems(3)] show ?thesis
      by (simp add: Let_def)
  qed
qed

lemma loop_last_score:
  "t \<le> calculate_mock_similarity U q (content d) \<Longrightarrow>
     map_of (fst (find_similar_loop U q t (docs @ [d]) h rs) (metadata d)) ''similarity_score''
       = Some (PFloat (calculate_mock_similarity U q (content d)))"
  by (induction docs arbitrary: h rs) (simp_all add: Let_def update_conv')

text \<open>The fields of the state that a search leaves alone, and its results.\<close>

lemma find_similar_fields [simp]:
  "system_ready (snd (find_similar_documents U s q t l)) = system_ready s"
  "next_addr (snd (find_similar_documents U s q t l)) = next_addr s"
  "mock_documents (snd (find_similar_documents U s q t l)) = mock_documents s"
  "mock_storage (snd (find_similar_documents U s q t l)) = mock_storage s"
  by (simp_all add: find_similar_documents_def split: prod.splits)

lemma find_similar_heap:
  "heap (snd (find_similar_documents U s q t l))
     = fst (find_similar_loop U q t (mock_documents s) (heap s) [])"
  by (simp add: find_similar_documents_def split: prod.splits)

lemma set_slice_to: "set (slice_to l xs) \<subseteq> set xs"
  by (auto simp: slice_to_def dest: in_set_takeD)

lemma slice_to_all: "int (length xs) \<le> l \<Longrightarrow> slice_to l xs = xs"
  by (simp add: slice_to_def)

lemma find_similar_results:
  "fst (find_similar_documents U s q t l)
     = slice_to l (sort_key (\<lambda>x. - score_key (heap (snd (find_similar_documents U s q t l))) x)
         (filter (\<lambda>d. t \<le> calculate_mock_similarity U q (content d)) (mock_documents s)))"
  using loop_results [of U q t "mock_documents s" "heap s" "[]"]
  by (cases "find_similar_loop U q t (mock_documents s) (heap s) []")
     (simp add: find_similar_documents_def)

lemma find_similar_subset:
  "set (fst (find_similar_documents U s q t l))
     \<subseteq> {d \<in> set (mock_documents s). t \<le> calculate_mock_similarity U q (content d)}"
  using set_slice_to [of l] by (subst find_similar_results) fastforce

lemma find_similar_float:
  "d \<in> set (fst (find_similar_documents U s q t l)) \<Longrightarrow>
     \<exists>r. map_of (heap (snd (find_similar_documents U s q t l)) (metadata d)) ''similarity_score''
           = Some (PFloat r)"
  using find_similar_subset [of U s q t l] by (auto simp: find_similar_heap loop_writes_float)

lemma hd_slice_sorted:
  assumes "sorted (map f xs)" and "x \<in> set (slice_to l xs)"
  shows "f (hd (slice_to l xs)) \<le> f x"
proof -
  define n where "n = (if 0 \<le> l then nat l else length xs - nat (- l))"
  have n: "slice_to l xs = take n xs"
    by (simp add: slice_to_def n_def)
  from assms(2) have x: "x \<in> set (take n xs)"
    by (simp add: n)
  then have "x \<in> set xs"
    by (rule in_set_takeD)
  show ?thesis
  proof (cases xs)
    case Nil
    with x show ?thesis by simp
  next
    case (Cons y ys)
    show ?thesis
    proof (cases n)
      case 0
      with x show ?thesis by simp
    next
      case (Suc m)
      with Cons have "hd (take n xs) = y" by simp
      moreover from assms(1) Cons \<open>x \<in> set xs\<close> have "f y \<le> f x" by auto
      ultimately show ?thesis by (simp add: n)
    qed
  qed
qed

lemma find_similar_hd_max:
  "d \<in> set (fst (find_similar_documents U s q t l)) \<Longrightarrow>
     score_key (heap (snd (find_similar_documents U s q t l))) d
       \<le> score_key (heap (snd (find_similar_documents U s q t l)))
            (hd (fst (find_similar_documents U s q t l)))"
proof -
  let ?h = "heap (snd (find_similar_documents U s q t l))"
  let ?xs = "sort_key (\<lambda>x. - score_key ?h x)
         (filter (\<lambda>d. t \<le> calculate_mock_similarity U q (content d)) (mock_documents s))"
  assume "d \<in> set (fst (find_similar_documents U s q t l))"
  moreover have eq: "fst (find_similar_documents U s q t l) = slice_to l ?xs"
    by (rule find_similar_results)
  ultimately have d: "d \<in> set (slice_to l ?xs)"
    by simp
  have "sorted (map (\<lambda>x. - score_key ?h x) ?xs)"
    by (rule sorted_sort_key)
  from hd_slice_sorted [OF this d] show ?thesis
    using eq by simp
qed

lemma search_neck_results:
  "fst (find_similar_documents latin (initialize_components None) [0xBAA9] 0.7 5) = [health_neck_001]"
  by (simp add: find_similar_documents_def sim_neck slice_to_def Let_def)

lemma search_neck_heap:
  "heap (snd (find_similar_documents latin (initialize_components None) [0xBAA9] 0.7 5))
     = initial_heap(0 := initial_heap 0 @ [(''similarity_score'', PFloat 0.9)])"
  by (simp add: find_similar_heap sim_neck Let_def initial_heap_def)

text \<open>
  C1. Whatever the search returns, \<open>_evaluate_similarity\<close> applied to it answers
  without raising. For an empty list the answer is no (synthesize). Otherwise the first
  result carries a float score \<open>r\<close>, no result carries a higher one, and the answer is
  yes (reuse) exactly when \<open>r\<close> is at least 0.85, or at least 0.70 and below 0.85 with
  two results or more; so a top score below 0.70 gives no.
\<close>

theorem evaluate_similarity_of_search:
  assumes "find_similar_documents U s q t l = (res, s')"
  shows "case res of
           [] \<Rightarrow> evaluate_similarity (heap s') res fb = Inr False
         | best # rest \<Rightarrow>
             \<exists>r. map_of (heap s' (metadata best)) ''similarity_score'' = Some (PFloat r)
               \<and> (\<forall>d\<in>set res. \<exists>x. map_of (heap s' (metadata d)) ''similarity_score''
                      = Some (PFloat x) \<and> x \<le> r)
               \<and> evaluate_similarity (heap s') res fb
                   = Inr (r \<ge> 0.85 \<or> (0.70 \<le> r \<and> r < 0.85 \<and> 2 \<le> length res))"
proof (cases res)
  case Nil
  then show ?thesis by (simp add: evaluate_similarity_def)
next
  case (Cons best rest)
  from assms have res: "res = fst (find_similar_documents U s q t l)"
    and s': "s' = snd (find_similar_documents U s q t l)"
    by simp_all
  have floats: "\<exists>x. map_of (heap s' (metadata d)) ''similarity_score'' = Some (PFloat x)"
    if "d \<in> set res" for d
    using that find_similar_float [of d U s q t l] by (simp add: res s')
  from Cons have "best \<in> set res" by simp
  from floats [OF this]
  obtain r where r: "map_of (heap s' (metadata best)) ''similarity_score'' = Some (PFloat r)" ..
  then have key: "score_key (heap s') best = r"
    by (simp add: score_key_def)
  have "\<forall>d\<in>set res. score_key (heap s') d \<le> score_key (heap s') (hd res)"
    using find_similar_hd_max [of _ U s q t l] by (simp add: res s')
  with Cons key have max: "\<forall>d\<in>set res. score_key (heap s') d \<le> r"
    by simp
  have below: "\<exists>x. map_of (heap s' (metadata d)) ''similarity_score'' = Some (PFloat x) \<and> x \<le> r"
    if "d \<in> set res" for d
  proof -
    from floats [OF that]
    obtain x where x: "map_of (heap s' (metadata d)) ''similarity_score'' = Some (PFloat x)" ..
    then have "score_key (heap s') d = x"
      by (simp add: score_key_def)
    with max that have "x \<le> r" by auto
    with x show ?thesis by simp
  qed
  have "evaluate_similarity (heap s') res fb
          = Inr (r \<ge> 0.85 \<or> (0.70 \<le> r \<and> r < 0.85 \<and> 2 \<le> length res))"
    using r Cons by (auto simp: evaluate_similarity_def dict_get_def format_3f_def)
  with r below Cons show ?thesis by auto
qed

theorem evaluate_similarity_of_search_witness:
  "fst (find_similar_documents latin (initialize_components None) [0xBAA9] 0.7 5) = [health_neck_001]
   \<and> (\<exists>r. map_of
            (heap (snd (find_similar_documents latin (initialize_components None) [0xBAA9] 0.7 5))
               (metadata health_neck_001)) ''similarity_score'' = Some (PFloat r)
          \<and> evaluate_similarity
               (heap (snd (find_similar_documents latin (initialize_components None) [0xBAA9] 0.7 5)))
               [health_neck_001] (test_feedback [0xBAA9])
             = Inr (r \<ge> 0.85 \<or> (0.70 \<le> r \<and> r < 0.85 \<and> 2 \<le> length [health_neck_001])))
   \<and> evaluate_similarity
        (heap (snd (find_similar_documents latin (initialize_components None) [0xBAA9] 0.7 5)))
        [health_neck_001] (test_feedback [0xBAA9]) = Inr True"
proof -
  have eq: "find_similar_documents latin (initialize_components None) [0xBAA9] 0.7 5
      = ([health_neck_001],
         snd (find_similar_documents latin (initialize_components None) [0xBAA9] 0.7 5))"
    using search_neck_results by (simp add: prod_eq_iff)
  have "evaluate_similarity
        (heap (snd (find_similar_documents latin (initialize_components None) [0xBAA9] 0.7 5)))
        [health_neck_001] (test_feedback [0xBAA9]) = Inr True"
    by (simp add: search_neck_heap evaluate_similarity_def dict_get_def format_3f_def
        initial_heap_def)
  then show ?thesis
    using evaluate_similarity_of_search [OF eq, of "test_feedback [0xBAA9]"] search_neck_results
    by auto
qed

lemma save_fields [simp]:
  "fst (save_expert_document s d) = document_id d"
  "system_ready (snd (save_expert_document s d)) = system_ready s"
  "heap (snd (save_expert_document s d)) = heap s"
  "next_addr (snd (save_expert_document s d)) = next_addr s"
  "mock_documents (snd (save_expert_document s d)) = mock_documents s"
  "mock_storage (snd (save_expert_document s d)) = AList.update (document_id d) d (mock_storage s)"
  by (simp_all add: save_expert_document_def)

lemma sim_no_query_keyword:
  "calculate_mock_similarity latin (ascii ''hello'') c = 0.3"
  "calculate_mock_similarity latin [0xC8FC, 0xC2DD] c = 0.3"
  by (simp_all add: calculate_mock_similarity_def ascii_def str_eval)

lemma sim_values:
  "calculate_mock_similarity U q c \<in> {0.3, 0.8, 0.85, 0.9, 0.95}"
  by (simp add: calculate_mock_similarity_def Let_def)

text \<open>
  C8 as stated fails: the search writes the score into the metadata dictionary of the
  stored document, where it stays. The seeded neck document has no score at the start, has
  the score 0.9 after a search for the word neck, and still has it after a later search for
  the word stocks, which does not match it.
\<close>

theorem search_keeps_score_counterexample:
  "map_of (heap (initialize_components None) (metadata health_neck_001)) ''similarity_score''
     = None
   \<and> map_of (heap (snd (find_similar_documents latin (initialize_components None) [0xBAA9] 0.7 5))
        (metadata health_neck_001)) ''similarity_score'' = Some (PFloat 0.9)
   \<and> map_of (heap (snd (find_similar_documents latin
          (snd (find_similar_documents latin (initialize_components None) [0xBAA9] 0.7 5))
          [0xC8FC, 0xC2DD] 0.7 5))
        (metadata health_neck_001)) ''similarity_score'' = Some (PFloat 0.9)"
  by (simp add: find_similar_heap sim_neck sim_no_query_keyword Let_def initial_heap_def)

text \<open>
  C8, amended. A search changes nothing but metadata dictionaries, and in them nothing but
  the entry \<open>"similarity_score"\<close>: the readiness flag, the index, the document store and
  every other key of every dictionary stay as they are, and so does the whole dictionary
  of a document that scores below the threshold. A document that reaches the threshold
  has its score stored in its dictionary when the call returns (the documents of the index
  having dictionaries of their own, which holds in every state the pipeline reaches, lemma
  \<open>reachable_distinct_metadata\<close>).
\<close>

theorem search_frame:
  assumes "find_similar_documents U s q t l = (res, s')"
  shows "system_ready s' = system_ready s \<and> next_addr s' = next_addr s
    \<and> mock_documents s' = mock_documents s \<and> mock_storage s' = mock_storage s
    \<and> (\<forall>a k. k \<noteq> ''similarity_score'' \<longrightarrow> map_of (heap s' a) k = map_of (heap s a) k)
    \<and> (\<forall>a. (\<forall>d\<in>set (mock_documents s).
               metadata d = a \<longrightarrow> calculate_mock_similarity U q (content d) < t)
           \<longrightarrow> heap s' a = heap s a)
    \<and> (distinct (map metadata (mock_documents s)) \<longrightarrow>
         (\<forall>d\<in>set (mock_documents s). t \<le> calculate_mock_similarity U q (content d) \<longrightarrow>
            map_of (heap s' (metadata d)) ''similarity_score''
              = Some (PFloat (calculate_mock_similarity U q (content d)))))"
proof -
  from assms have s': "s' = snd (find_similar_documents U s q t l)"
    by simp
  show ?thesis
    unfolding s'
    by (simp add: find_similar_heap loop_other_keys loop_untouched loop_score)
qed

theorem search_frame_witness:
  "distinct (map metadata (mock_documents (initialize_components None)))
   \<and> 0.7 \<le> calculate_mock_similarity latin [0xBAA9] (content health_neck_001)
   \<and> map_of (heap (snd (find_similar_documents latin (initialize_components None) [0xBAA9] 0.7 5))
        (metadata health_neck_001)) ''similarity_score''
       = Some (PFloat (calculate_mock_similarity latin [0xBAA9] (content health_neck_001)))
   \<and> calculate_mock_similarity latin [0xBAA9] (content finance_budget_001) < 0.7
   \<and> heap (snd (find_similar_documents latin (initialize_components None) [0xBAA9] 0.7 5))
        (metadata finance_budget_001)
       = heap (initialize_components None) (metadata finance_budget_001)"
proof -
  have eq: "find_similar_documents latin (initialize_components None) [0xBAA9] 0.7 5
      = (fst (find_similar_documents latin (initialize_components None) [0xBAA9] 0.7 5),
         snd (find_similar_documents latin (initialize_components None) [0xBAA9] 0.7 5))"
    by simp
  have d: "distinct (map metadata (mock_documents (initialize_components None)))"
    by simp
  from search_frame [OF eq] d show ?thesis
    by (simp add: sim_neck)
qed

text \<open>
  C4 as stated fails: no string scores 1.0, and a document without a keyword is not found
  by its own body. A document whose body is \<open>hello\<close> scores 0.3 against itself and,
  once saved and indexed, is not among the results of a search for \<open>hello\<close> at the
  threshold 0.7; the body of the neck document scores 0.9 against itself.
\<close>

theorem round_trip_counterexample:
  "calculate_mock_similarity latin (ascii ''hello'') (ascii ''hello'') = 0.3
   \<and> fst (find_similar_documents latin
        (index_document
           (snd (save_expert_document (initialize_components None)
              \<lparr>document_id = ascii ''health_20250101_120000'', topic = ascii ''health'',
               content = ascii ''hello'', metadata = 3, quality_score = 0.94,
               created_at = ascii ''2025-01-01T12:00:00''\<rparr>))
           \<lparr>document_id = ascii ''health_20250101_120000'', topic = ascii ''health'',
            content = ascii ''hello'', metadata = 3, quality_score = 0.94,
            created_at = ascii ''2025-01-01T12:00:00''\<rparr>)
        (ascii ''hello'') 0.7 5) = []
   \<and> calculate_mock_similarity latin (content health_neck_001) (content health_neck_001) = 0.9"
proof -
  have "calculate_mock_similarity latin (content health_neck_001) (content health_neck_001) = 0.9"
    by (simp add: calculate_mock_similarity_def health_neck_001_def str_eval)
  then show ?thesis
    by (simp add: find_similar_documents_def sim_no_query_keyword slice_to_def Let_def)
qed

text \<open>Where the stable sort puts the document that was indexed last.\<close>

lemma insort_key_before:
  "f y \<le> f b \<Longrightarrow> insort_key f y (as @ b # cs) = insort_key f y as @ b # cs"
  by (induction as) simp_all

lemma insort_key_after:
  "\<forall>a\<in>set as. \<not> f y \<le> f a \<Longrightarrow> insort_key f y (as @ bs) = as @ insort_key f y bs"
  by (induction as) simp_all

lemma sort_key_snoc:
  "sort_key f (ys @ [d])
     = filter (\<lambda>x. f x \<le> f d) (sort_key f ys) @ d # filter (\<lambda>x. \<not> f x \<le> f d) (sort_key f ys)"
proof (induction ys)
  case Nil
  show ?case by simp
next
  case (Cons y ys)
  let ?S = "sort_key f ys"
  have sorted: "sorted (map f ?S)"
    by (rule sorted_sort_key)
  show ?case
  proof (cases "f y \<le> f d")
    case True
    with sorted show ?thesis
      by (simp add: Cons.IH filter_insort filter_insort_triv insort_key_before)
  next
    case False
    then have "\<forall>a\<in>set (filter (\<lambda>x. f x \<le> f d) ?S). \<not> f y \<le> f a"
      by auto
    with False sorted show ?thesis
      by (simp add: Cons.IH filter_insort filter_insort_triv insort_key_after)
  qed
qed

lemma last_in_take_sort:
  assumes "length (filter (\<lambda>x. f x \<le> f d) ys) < n"
  shows "d \<in> set (take n (sort_key f (ys @ [d])))"
proof -
  from assms obtain m where "n - length (filter (\<lambda>x. f x \<le> f d) ys) = Suc m"
    by (cases "n - length (filter (\<lambda>x. f x \<le> f d) ys)") auto
  then show ?thesis
    by (simp add: sort_key_snoc filter_sort)
qed

lemma last_in_take_sort_only:
  assumes "d \<notin> set ys" and "d \<in> set (take n (sort_key f (ys @ [d])))"
  shows "length (filter (\<lambda>x. f x \<le> f d) ys) < n"
proof (rule ccontr)
  assume "\<not> length (filter (\<lambda>x. f x \<le> f d) ys) < n"
  then have "take n (sort_key f (ys @ [d])) = take n (filter (\<lambda>x. f x \<le> f d) (sort_key f ys))"
    by (simp add: sort_key_snoc filter_sort)
  with assms(2) have "d \<in> set (sort_key f ys)"
    by (auto dest: in_set_takeD)
  with assms(1) show False by simp
qed

lemma slice_to_take:
  "slice_to l xs = take (if 0 \<le> l then nat l else length xs - nat (- l)) xs"
  by (simp add: slice_to_def)

lemma sim_neck_body:
  "calculate_mock_similarity latin (content health_neck_001) (content health_neck_001) = 0.9"
  "calculate_mock_similarity latin (content health_neck_001) (content finance_budget_001) = 0.3"
  "calculate_mock_similarity latin (content health_neck_001) (content skincare_acne_001) = 0.3"
  by (simp_all add: calculate_mock_similarity_def health_neck_001_def finance_budget_001_def
      skincare_acne_001_def str_eval)

text \<open>
  C4, amended. The score of a body against itself is one of 0.3, 0.8, 0.85, 0.9 and 0.95,
  never 1.0. After a document is saved and indexed, the store holds it under its identifier.
  A search by its own body returns the document only if that score reaches the threshold,
  and then the score stored in the document's dictionary is that score. The document is
  sorted behind the documents indexed before it that reach the threshold with a stored
  score at least as high, so it is returned when these are fewer than the limit allows, and
  for a document that was not in the index before, only then. In particular it is returned
  whenever the limit is at least the number of documents that reach the threshold.
\<close>

theorem round_trip:
  assumes "s1 = index_document (snd (save_expert_document s d)) d"
    and "find_similar_documents U s1 (content d) t l = (res, s2)"
  shows "calculate_mock_similarity U (content d) (content d) \<in> {0.3, 0.8, 0.85, 0.9, 0.95}
    \<and> map_of (mock_storage s1) (document_id d) = Some d
    \<and> (d \<in> set res \<longrightarrow> t \<le> calculate_mock_similarity U (content d) (content d))
    \<and> (t \<le> calculate_mock_similarity U (content d) (content d) \<longrightarrow>
         map_of (heap s2 (metadata d)) ''similarity_score''
           = Some (PFloat (calculate_mock_similarity U (content d) (content d))))
    \<and> (t \<le> calculate_mock_similarity U (content d) (content d)
         \<and> int (length (filter
               (\<lambda>x. calculate_mock_similarity U (content d) (content d) \<le> score_key (heap s2) x)
               (candidates U (content d) t (mock_documents s))))
           < (if 0 \<le> l then l
              else int (length (candidates U (content d) t (mock_documents s1))) + l)
         \<longrightarrow> d \<in> set res)
    \<and> (d \<notin> set (mock_documents s) \<and> d \<in> set res \<longrightarrow>
         int (length (filter
               (\<lambda>x. calculate_mock_similarity U (content d) (content d) \<le> score_key (heap s2) x)
               (candidates U (content d) t (mock_documents s))))
           < (if 0 \<le> l then l
              else int (length (candidates U (content d) t (mock_documents s1))) + l))
    \<and> (int (length (candidates U (content d) t (mock_documents s1))) \<le> l \<longrightarrow>
         (d \<in> set res \<longleftrightarrow> t \<le> calculate_mock_similarity U (content d) (content d)))"
proof -
  let ?sim = "\<lambda>x. calculate_mock_similarity U (content d) (content x)"
  let ?old = "candidates U (content d) t (mock_documents s)"
  let ?all = "candidates U (content d) t (mock_documents s1)"
  let ?F = "\<lambda>x. - score_key (heap s2) x"
  let ?ahead = "filter (\<lambda>x. ?sim d \<le> score_key (heap s2) x) ?old"
  let ?n = "if 0 \<le> l then nat l else length ?all - nat (- l)"
  let ?room = "if 0 \<le> l then l else int (length ?all) + l"
  from assms(2) have res: "res = fst (find_similar_documents U s1 (content d) t l)"
    and s2: "s2 = snd (find_similar_documents U s1 (content d) t l)"
    by simp_all
  have docs: "mock_documents s1 = mock_documents s @ [d]"
    by (simp add: assms(1))
  have stored: "map_of (mock_storage s1) (document_id d) = Some d"
    by (simp add: assms(1) update_conv')
  have sorted: "res = take ?n (sort_key ?F ?all)"
    unfolding res s2 candidates_def
    by (subst find_similar_results) (simp add: slice_to_take)
  have reaches: "t \<le> ?sim d" if "d \<in> set res"
    using that find_similar_subset [of U s1 "content d" t l] by (auto simp: res)
  have score: "map_of (heap s2 (metadata d)) ''similarity_score'' = Some (PFloat (?sim d))"
    if "t \<le> ?sim d"
    using that loop_last_score [of t U "content d" d "mock_documents s" "heap s1" "[]"]
    by (simp add: s2 find_similar_heap docs)
  have room: "int (length ?ahead) < ?room \<longleftrightarrow> length ?ahead < ?n"
    by auto
  have split: "?all = ?old @ [d]" and ahead: "?ahead = filter (\<lambda>x. ?F x \<le> ?F d) ?old"
    if "t \<le> ?sim d"
  proof -
    from that show "?all = ?old @ [d]"
      by (simp add: candidates_def docs)
    from score [OF that] have "score_key (heap s2) d = ?sim d"
      by (simp add: score_key_def)
    then show "?ahead = filter (\<lambda>x. ?F x \<le> ?F d) ?old"
      by simp
  qed
  have found: "d \<in> set res" if "t \<le> ?sim d" and "int (length ?ahead) < ?room"
  proof -
    from that(2) room have "length (filter (\<lambda>x. ?F x \<le> ?F d) ?old) < ?n"
      by (simp only: ahead [OF that(1)])
    from last_in_take_sort [OF this] show ?thesis
      by (simp only: sorted split [OF that(1)])
  qed
  have only: "int (length ?ahead) < ?room" if "d \<notin> set (mock_documents s)" and "d \<in> set res"
  proof -
    from that(2) have t: "t \<le> ?sim d"
      by (rule reaches)
    from that(1) have new: "d \<notin> set ?old"
      by (simp add: candidates_def)
    from that(2) have "d \<in> set (take ?n (sort_key ?F (?old @ [d])))"
      by (simp only: sorted split [OF t])
    from last_in_take_sort_only [OF new this] have "length ?ahead < ?n"
      by (simp only: ahead [OF t])
    with room show ?thesis
      by (simp only:)
  qed
  have fits: "d \<in> set res \<longleftrightarrow> t \<le> ?sim d" if "int (length ?all) \<le> l"
  proof
    assume "d \<in> set res"
    then show "t \<le> ?sim d" by (rule reaches)
  next
    assume t: "t \<le> ?sim d"
    have "length ?ahead \<le> length ?old"
      by simp
    also have "\<dots> < length ?all"
      by (simp add: split [OF t])
    finally have "int (length ?ahead) < l"
      using that by linarith
    moreover from that have "0 \<le> l"
      by linarith
    ultimately have "int (length ?ahead) < ?room"
      by simp
    with t show "d \<in> set res"
      by (rule found)
  qed
  from stored reaches score found only fits show ?thesis
    using sim_values [of U "content d" "content d"] by blast
qed

theorem round_trip_witness:
  "health_neck_001\<lparr>document_id := ascii ''health_20250101_120000'', metadata := 3\<rparr>
     \<notin> set (mock_documents (initialize_components None))
   \<and> map_of (mock_storage (index_document
       (snd (save_expert_document (initialize_components None)
          (health_neck_001\<lparr>document_id := ascii ''health_20250101_120000'', metadata := 3\<rparr>)))
       (health_neck_001\<lparr>document_id := ascii ''health_20250101_120000'', metadata := 3\<rparr>)))
     (ascii ''health_20250101_120000'')
     = Some (health_neck_001\<lparr>document_id := ascii ''health_20250101_120000'', metadata := 3\<rparr>)
   \<and> health_neck_001\<lparr>document_id := ascii ''health_20250101_120000'', metadata := 3\<rparr>
     \<in> set (fst (find_similar_documents latin
          (index_document
             (snd (save_expert_document (initialize_components None)
                (health_neck_001\<lparr>document_id := ascii ''health_20250101_120000'', metadata := 3\<rparr>)))
             (health_neck_001\<lparr>document_id := ascii ''health_20250101_120000'', metadata := 3\<rparr>))
          (content health_neck_001) 0.7 5))
   \<and> health_neck_001\<lparr>document_id := ascii ''health_20250101_120000'', metadata := 3\<rparr>
     \<notin> set (fst (find_similar_documents latin
          (index_document
             (snd (save_expert_document (initialize_components None)
                (health_neck_001\<lparr>document_id := ascii ''health_20250101_120000'', metadata := 3\<rparr>)))
             (health_neck_001\<lparr>document_id := ascii ''health_20250101_120000'', metadata := 3\<rparr>))
          (content health_neck_001) 0.7 1))"
proof -
  let ?d = "health_neck_001\<lparr>document_id := ascii ''health_20250101_120000'', metadata := 3\<rparr>"
  let ?s1 = "index_document (snd (save_expert_document (initialize_components None) ?d)) ?d"
  have new: "?d \<notin> set (mock_documents (initialize_components None))"
    by (auto dest!: arg_cong [where f = metadata])
  have five: "find_similar_documents latin ?s1 (content ?d) 0.7 5
      = (fst (find_similar_documents latin ?s1 (content ?d) 0.7 5),
         snd (find_similar_documents latin ?s1 (content ?d) 0.7 5))"
    by simp
  have one: "find_similar_documents latin ?s1 (content ?d) 0.7 1
      = (fst (find_similar_documents latin ?s1 (content ?d) 0.7 1),
         snd (find_similar_documents latin ?s1 (content ?d) 0.7 1))"
    by simp
  have ahead: "score_key (heap (snd (find_similar_documents latin ?s1 (content ?d) 0.7 1)))
      health_neck_001 = 0.9"
    by (simp add: find_similar_heap sim_neck_body score_key_def Let_def initial_heap_def)
  from round_trip [OF refl five] round_trip [OF refl one] new ahead show ?thesis
    by (simp add: candidates_def sim_neck_body)
qed

section \<open>The pipeline\<close>

lemma determine_category_in: "determine_category U c \<in> categories"
  by (simp add: determine_category_def categories_def Let_def)

lemma agent_determine_category_in: "agent_determine_category U c \<in> categories"
  by (simp add: agent_determine_category_def categories_def Let_def)

lemma no_keys_fields [simp]:
  "success no_keys = False"
  "error no_keys = None"
  "fallback_quest no_keys = None"
  "res_method no_keys = None"
  "documents_used no_keys = None"
  "res_document_id no_keys = None"
  "expert_document no_keys = None"
  "quests no_keys = None"
  "res_metadata no_keys = None"
  by (simp_all add: no_keys_def)

lemma failure_fields [simp]:
  "success (failure U fb m) = False"
  "error (failure U fb m) = Some m"
  "fallback_quest (failure U fb m) = Some (create_fallback_quest U fb)"
  "res_method (failure U fb m) = None"
  "quests (failure U fb m) = None"
  by (simp_all add: failure_def)

lemma create_expert_document_fields [simp]:
  "topic (fst (create_expert_document U e s fb ts)) = agent_determine_category U (fb_content fb)"
  "metadata (fst (create_expert_document U e s fb ts)) = next_addr s"
  "document_id (fst (create_expert_document U e s fb ts))
     = agent_determine_category U (fb_content fb) @ ascii ''_'' @ now_stamp e"
  "system_ready (snd (create_expert_document U e s fb ts)) = system_ready s"
  "mock_documents (snd (create_expert_document U e s fb ts)) = mock_documents s"
  "mock_storage (snd (create_expert_document U e s fb ts)) = mock_storage s"
  "next_addr (snd (create_expert_document U e s fb ts)) = Suc (next_addr s)"
  by (simp_all add: create_expert_document_def Let_def)

text \<open>The new-document path, step by step.\<close>

lemma create_new_success:
  "success (fst (create_new_expert_document_and_quest U e s fb)) \<longleftrightarrow>
     raise_search_trusted e = None \<and> raise_create_expert e = None \<and> raise_save e = None
     \<and> raise_index e = None \<and> raise_generate_new e = None"
  by (simp add: create_new_expert_document_and_quest_def Let_def case_prod_beta
      split: option.splits)

lemma create_new_quests:
  "success (fst (create_new_expert_document_and_quest U e s fb)) \<Longrightarrow>
     quests (fst (create_new_expert_document_and_quest U e s fb))
       = Some (generate_mock_quests (agent_determine_category U (fb_content fb)) (fb_content fb))
     \<and> res_method (fst (create_new_expert_document_and_quest U e s fb))
       = Some (ascii ''new_expert_document'')"
  by (simp add: create_new_expert_document_and_quest_def Let_def case_prod_beta
      generate_from_documents_def split: option.splits)

lemma create_new_failure:
  "\<not> success (fst (create_new_expert_document_and_quest U e s fb)) \<Longrightarrow>
     \<exists>m. fst (create_new_expert_document_and_quest U e s fb) = failure U fb m"
  by (auto simp: create_new_expert_document_and_quest_def Let_def case_prod_beta
      split: option.splits)

lemma create_new_ready [simp]:
  "system_ready (snd (create_new_expert_document_and_quest U e s fb)) = system_ready s"
  by (simp add: create_new_expert_document_and_quest_def Let_def case_prod_beta
      split: option.splits)

text \<open>The reuse path.\<close>

lemma existing_result:
  "raise_generate_existing e = None \<Longrightarrow>
     generate_quest_from_existing U e s docs fb
       = (no_keys\<lparr>success := True,
            res_method := Some (ascii ''existing_documents''),
            documents_used := Some (length docs),
            quests := Some (generate_from_documents docs fb),
            res_metadata := Some
              [(''processing_time'', PStr (now_processed e)),
               (''similarity_scores'',
                PList (map (\<lambda>doc. dict_get (heap s (metadata doc)) ''similarity_score'' (PInt 0))
                         docs))]\<rparr>, s)"
  "raise_generate_existing e = Some m \<Longrightarrow>
     generate_quest_from_existing U e s docs fb = create_new_expert_document_and_quest U e s fb"
  by (simp_all add: generate_quest_from_existing_def)

text \<open>The request as a whole.\<close>

lemma process_not_ready:
  "\<not> system_ready s \<Longrightarrow>
     snd (process_user_feedback U e s fb) = s
     \<and> success (fst (process_user_feedback U e s fb)) = False
     \<and> error (fst (process_user_feedback U e s fb)) \<noteq> None
     \<and> fallback_quest (fst (process_user_feedback U e s fb)) = None"
  by (simp add: process_user_feedback_def)

lemma process_search_raises:
  "system_ready s \<Longrightarrow> raise_find_similar e = Some m \<Longrightarrow>
     process_user_feedback U e s fb = (failure U fb m, s)"
  by (simp add: process_user_feedback_def)

lemma evaluate_of_float:
  "map_of (h (metadata best)) ''similarity_score'' = Some (PFloat r) \<Longrightarrow>
     evaluate_similarity h (best # rest) fb
       = Inr (r \<ge> 0.85 \<or> (0.70 \<le> r \<and> r < 0.85 \<and> 2 \<le> length (best # rest)))"
  by (auto simp: evaluate_similarity_def dict_get_def format_3f_def)

lemma evaluate_search_total:
  "\<exists>b. evaluate_similarity (heap (snd (find_similar_documents U s q t l)))
          (fst (find_similar_documents U s q t l)) fb = Inr b"
proof (cases "fst (find_similar_documents U s q t l)")
  case Nil
  then have "evaluate_similarity (heap (snd (find_similar_documents U s q t l)))
          (fst (find_similar_documents U s q t l)) fb = Inr False"
    by (simp add: evaluate_similarity_def)
  then show ?thesis ..
next
  case (Cons best rest)
  then have "best \<in> set (fst (find_similar_documents U s q t l))"
    by simp
  from find_similar_float [OF this] Cons show ?thesis
    by (auto simp: evaluate_of_float)
qed

lemma process_ready:
  assumes "system_ready s" and "raise_find_similar e = None"
    and "find_similar_documents U s (fb_content fb) 0.7 5 = (docs, s1)"
  shows "\<exists>b. evaluate_similarity (heap s1) docs fb = Inr b
           \<and> process_user_feedback U e s fb
               = (if b then generate_quest_from_existing U e s1 docs fb
                  else create_new_expert_document_and_quest U e s1 fb)"
proof -
  from evaluate_search_total [of U s "fb_content fb" "0.7" 5 fb] assms(3)
  obtain b where "evaluate_similarity (heap s1) docs fb = Inr b"
    by auto
  with assms show ?thesis
    by (simp add: process_user_feedback_def)
qed

lemma evaluate_True_nonempty:
  "evaluate_similarity h docs fb = Inr True \<Longrightarrow> docs \<noteq> []"
  by (auto simp: evaluate_similarity_def)

lemma create_new_state:
  "\<exists>d. topic d = agent_determine_category U (fb_content fb) \<and> metadata d = next_addr s
     \<and> next_addr s \<le> next_addr (snd (create_new_expert_document_and_quest U e s fb))
     \<and> (mock_documents (snd (create_new_expert_document_and_quest U e s fb)) = mock_documents s
          \<and> mock_storage (snd (create_new_expert_document_and_quest U e s fb)) = mock_storage s
        \<or> raise_index e \<noteq> None
          \<and> mock_documents (snd (create_new_expert_document_and_quest U e s fb)) = mock_documents s
          \<and> mock_storage (snd (create_new_expert_document_and_quest U e s fb))
              = AList.update (document_id d) d (mock_storage s)
        \<or> mock_documents (snd (create_new_expert_document_and_quest U e s fb))
              = mock_documents s @ [d]
          \<and> mock_storage (snd (create_new_expert_document_and_quest U e s fb))
              = AList.update (document_id d) d (mock_storage s)
          \<and> next_addr (snd (create_new_expert_document_and_quest U e s fb)) = Suc (next_addr s))"
  by (rule exI [of _ "fst (create_expert_document U e s fb
        (search_trusted_sources (fb_content fb) (determine_category U (fb_content fb))))"])
     (simp add: create_new_expert_document_and_quest_def Let_def case_prod_beta
        split: option.splits)

lemma process_cases:
  "process_user_feedback U e s fb
     = (no_keys\<lparr>success := False, error := Some [0xC2DC, 0xC2A4, 0xD15C, 0xC774, 0x20,
                                                        0xC900, 0xBE44, 0xB418, 0xC9C0, 0x20,
                                                        0xC54A, 0xC558, 0xC2B5, 0xB2C8, 0xB2E4,
                                                        0x2E]\<rparr>, s)
       \<and> \<not> system_ready s
   \<or> (\<exists>m. process_user_feedback U e s fb = (failure U fb m, s)) \<and> system_ready s
   \<or> (\<exists>docs. docs \<noteq> [] \<and> set docs \<subseteq> set (mock_documents s)
         \<and> raise_generate_existing e = None \<and> system_ready s
         \<and> process_user_feedback U e s fb
             = generate_quest_from_existing U e
                 (snd (find_similar_documents U s (fb_content fb) 0.7 5)) docs fb)
   \<or> process_user_feedback U e s fb
        = create_new_expert_document_and_quest U e
            (snd (find_similar_documents U s (fb_content fb) 0.7 5)) fb
       \<and> system_ready s"
proof (cases "system_ready s")
  case False
  then show ?thesis by (simp add: process_user_feedback_def)
next
  case ready: True
  show ?thesis
  proof (cases "raise_find_similar e")
    case (Some m)
    with ready have "process_user_feedback U e s fb = (failure U fb m, s)"
      by (simp add: process_search_raises)
    with ready show ?thesis by blast
  next
    case None
    let ?docs = "fst (find_similar_documents U s (fb_content fb) 0.7 5)"
    let ?s1 = "snd (find_similar_documents U s (fb_content fb) 0.7 5)"
    have "find_similar_documents U s (fb_content fb) 0.7 5 = (?docs, ?s1)"
      by simp
    from process_ready [OF ready None this]
    obtain b where b: "evaluate_similarity (heap ?s1) ?docs fb = Inr b"
      and p: "process_user_feedback U e s fb
               = (if b then generate_quest_from_existing U e ?s1 ?docs fb
                  else create_new_expert_document_and_quest U e ?s1 fb)"
      by blast
    show ?thesis
    proof (cases b)
      case False
      with p ready show ?thesis by simp
    next
      case True
      with b have ne: "?docs \<noteq> []"
        by (simp add: evaluate_True_nonempty)
      have sub: "set ?docs \<subseteq> set (mock_documents s)"
        using find_similar_subset [of U s "fb_content fb" "0.7" 5] by auto
      show ?thesis
      proof (cases "raise_generate_existing e")
        case None
        with p True ne sub ready show ?thesis by auto
      next
        case (Some m)
        with p True ready show ?thesis by (simp add: existing_result)
      qed
    qed
  qed
qed

lemma process_state:
  "\<exists>d. topic d \<in> categories \<and> metadata d = next_addr s
     \<and> next_addr s \<le> next_addr (snd (process_user_feedback U e s fb))
     \<and> system_ready (snd (process_user_feedback U e s fb)) = system_ready s
     \<and> (mock_documents (snd (process_user_feedback U e s fb)) = mock_documents s
          \<and> mock_storage (snd (process_user_feedback U e s fb)) = mock_storage s
        \<or> raise_index e \<noteq> None
          \<and> mock_documents (snd (process_user_feedback U e s fb)) = mock_documents s
          \<and> mock_storage (snd (process_user_feedback U e s fb))
              = AList.update (document_id d) d (mock_storage s)
        \<or> mock_documents (snd (process_user_feedback U e s fb)) = mock_documents s @ [d]
          \<and> mock_storage (snd (process_user_feedback U e s fb))
              = AList.update (document_id d) d (mock_storage s)
          \<and> next_addr (snd (process_user_feedback U e s fb)) = Suc (next_addr s))"
proof -
  let ?s1 = "snd (find_similar_documents U s (fb_content fb) 0.7 5)"
  from create_new_state [of U fb ?s1 e]
  obtain d where d: "topic d = agent_determine_category U (fb_content fb)"
      "metadata d = next_addr s"
    and new: "next_addr s \<le> next_addr (snd (create_new_expert_document_and_quest U e ?s1 fb))
     \<and> (mock_documents (snd (create_new_expert_document_and_quest U e ?s1 fb)) = mock_documents s
          \<and> mock_storage (snd (create_new_expert_document_and_quest U e ?s1 fb)) = mock_storage s
        \<or> raise_index e \<noteq> None
          \<and> mock_documents (snd (create_new_expert_document_and_quest U e ?s1 fb)) = mock_documents s
          \<and> mock_storage (snd (create_new_expert_document_and_quest U e ?s1 fb))
              = AList.update (document_id d) d (mock_storage s)
        \<or> mock_documents (snd (create_new_expert_document_and_quest U e ?s1 fb))
              = mock_documents s @ [d]
          \<and> mock_storage (snd (create_new_expert_document_and_quest U e ?s1 fb))
              = AList.update (document_id d) d (mock_storage s)
          \<and> next_addr (snd (create_new_expert_document_and_quest U e ?s1 fb)) = Suc (next_addr s))"
    by auto
  from d have cat: "topic d \<in> categories"
    by (simp add: agent_determine_category_in)
  from process_cases [of U e s fb] show ?thesis
  proof (elim disjE conjE exE)
    assume "process_user_feedback U e s fb
      = (no_keys\<lparr>success := False, error := Some [0xC2DC, 0xC2A4, 0xD15C, 0xC774, 0x20,
                                                         0xC900, 0xBE44, 0xB418, 0xC9C0, 0x20,
                                                         0xC54A, 0xC558, 0xC2B5, 0xB2C8, 0xB2E4,
                                                         0x2E]\<rparr>, s)"
    with d cat show ?thesis by (intro exI [of _ d]) simp
  next
    fix m assume "process_user_feedback U e s fb = (failure U fb m, s)"
    with d cat show ?thesis by (intro exI [of _ d]) simp
  next
    fix docs
    assume "raise_generate_existing e = None"
      and "process_user_feedback U e s fb = generate_quest_from_existing U e ?s1 docs fb"
    with d cat show ?thesis by (intro exI [of _ d]) (simp add: existing_result)
  next
    assume "process_user_feedback U e s fb = create_new_expert_document_and_quest U e ?s1 fb"
    with d cat new show ?thesis by (intro exI [of _ d]) simp
  qed
qed

lemma set_update_subset: "set (AList.update k v al) \<subseteq> insert (k, v) (set al)"
  by (induction al) auto

lemma reachable_invariant:
  "reachable U P s \<Longrightarrow>
     system_ready s
     \<and> (\<forall>d\<in>set (mock_documents s). topic d \<in> categories \<and> metadata d < next_addr s)
     \<and> distinct (map metadata (mock_documents s))
     \<and> (\<forall>d\<in>snd ` set (mock_storage s). topic d \<in> categories)
     \<and> set initialize_mock_data \<subseteq> set (mock_documents s)"
proof (induction rule: reachable.induct)
  case start
  show ?case by (simp add: categories_def initialize_mock_data_def)
next
  case (request s e fb)
  let ?s' = "snd (process_user_feedback U e s fb)"
  from process_state [of s U e fb]
  obtain d where d: "topic d \<in> categories" "metadata d = next_addr s"
    and le: "next_addr s \<le> next_addr ?s'"
    and ready: "system_ready ?s' = system_ready s"
    and st: "mock_documents ?s' = mock_documents s \<and> mock_storage ?s' = mock_storage s
        \<or> raise_index e \<noteq> None \<and> mock_documents ?s' = mock_documents s
          \<and> mock_storage ?s' = AList.update (document_id d) d (mock_storage s)
        \<or> mock_documents ?s' = mock_documents s @ [d]
          \<and> mock_storage ?s' = AList.update (document_id d) d (mock_storage s)
          \<and> next_addr ?s' = Suc (next_addr s)"
    by blast
  have stored: "\<forall>x\<in>snd ` set (AList.update (document_id d) d (mock_storage s)). topic x \<in> categories"
    using set_update_subset [of "document_id d" d "mock_storage s"] d(1) request.IH
    by fastforce
  from request.IH have old: "\<forall>x\<in>set (mock_documents s). metadata x < next_addr s"
    by simp
  from st show ?case
  proof (elim disjE conjE)
    assume "mock_documents ?s' = mock_documents s" "mock_storage ?s' = mock_storage s"
    with request.IH le ready show ?thesis by fastforce
  next
    assume "mock_documents ?s' = mock_documents s"
      "mock_storage ?s' = AList.update (document_id d) d (mock_storage s)"
    with request.IH le ready stored show ?thesis by fastforce
  next
    assume "mock_documents ?s' = mock_documents s @ [d]"
      "mock_storage ?s' = AList.update (document_id d) d (mock_storage s)"
      "next_addr ?s' = Suc (next_addr s)"
    with request.IH ready stored d old show ?thesis by fastforce
  qed
qed

lemma reachable_distinct_metadata:
  "reachable U P s \<Longrightarrow> distinct (map metadata (mock_documents s))"
  by (simp add: reachable_invariant)

lemma reachable_stored_indexed:
  "reachable U (\<lambda>e. raise_index e = None) s \<Longrightarrow>
     \<forall>(k, d)\<in>set (mock_storage s). k = document_id d \<and> d \<in> set (mock_documents s)"
proof (induction rule: reachable.induct)
  case start
  show ?case by simp
next
  case (request s e fb)
  let ?s' = "snd (process_user_feedback U e s fb)"
  from process_state [of s U e fb] request.hyps(2)
  obtain d where "mock_documents ?s' = mock_documents s \<and> mock_storage ?s' = mock_storage s
        \<or> mock_documents ?s' = mock_documents s @ [d]
          \<and> mock_storage ?s' = AList.update (document_id d) d (mock_storage s)"
    by auto
  then show ?case
    using request.IH set_update_subset [of "document_id d" d "mock_storage s"]
    by fastforce
qed

lemma reachable_index_ids:
  "reachable U (\<lambda>e. raise_index e = None) s \<Longrightarrow>
     distinct (map fst (mock_storage s))
     \<and> document_id ` set (mock_documents s)
         = document_id ` set initialize_mock_data \<union> fst ` set (mock_storage s)"
proof (induction rule: reachable.induct)
  case start
  show ?case by (simp add: initialize_mock_data_def)
next
  case (request s e fb)
  let ?s' = "snd (process_user_feedback U e s fb)"
  from process_state [of s U e fb] request.hyps(2)
  obtain d where "mock_documents ?s' = mock_documents s \<and> mock_storage ?s' = mock_storage s
        \<or> mock_documents ?s' = mock_documents s @ [d]
          \<and> mock_storage ?s' = AList.update (document_id d) d (mock_storage s)"
    by auto
  then show ?case
  proof (elim disjE conjE)
    assume "mock_documents ?s' = mock_documents s" "mock_storage ?s' = mock_storage s"
    with request.IH show ?thesis by simp
  next
    assume "mock_documents ?s' = mock_documents s @ [d]"
      "mock_storage ?s' = AList.update (document_id d) d (mock_storage s)"
    with request.IH show ?thesis
      by (simp add: distinct_update dom_update)
  qed
qed

lemma success_three_quests:
  assumes "\<forall>d\<in>set (mock_documents s). topic d \<in> categories"
    and "success (fst (process_user_feedback U e s fb))"
  shows "\<exists>qs. quests (fst (process_user_feedback U e s fb)) = Some qs
           \<and> map difficulty qs = [easy, medium, hard]"
proof -
  let ?s1 = "snd (find_similar_documents U s (fb_content fb) 0.7 5)"
  from process_cases [of U e s fb] show ?thesis
  proof (elim disjE conjE exE)
    assume "process_user_feedback U e s fb
      = (no_keys\<lparr>success := False, error := Some [0xC2DC, 0xC2A4, 0xD15C, 0xC774, 0x20,
                                                         0xC900, 0xBE44, 0xB418, 0xC9C0, 0x20,
                                                         0xC54A, 0xC558, 0xC2B5, 0xB2C8, 0xB2E4,
                                                         0x2E]\<rparr>, s)"
    with assms(2) show ?thesis by simp
  next
    fix m assume "process_user_feedback U e s fb = (failure U fb m, s)"
    with assms(2) show ?thesis by simp
  next
    fix docs
    assume docs: "docs \<noteq> []" "set docs \<subseteq> set (mock_documents s)"
      and "raise_generate_existing e = None"
      and "process_user_feedback U e s fb = generate_quest_from_existing U e ?s1 docs fb"
    then have q: "quests (fst (process_user_feedback U e s fb))
        = Some (generate_from_documents docs fb)"
      by (simp add: existing_result)
    from docs obtain best rest where "docs = best # rest" and "best \<in> set (mock_documents s)"
      by (cases docs) auto
    with assms(1) have "map difficulty (generate_from_documents docs fb) = [easy, medium, hard]"
      by (simp add: generate_from_documents_def generate_mock_quests_known)
    with q show ?thesis by simp
  next
    assume p: "process_user_feedback U e s fb = create_new_expert_document_and_quest U e ?s1 fb"
    with assms(2) create_new_quests [of U e ?s1 fb] show ?thesis
      by (simp add: generate_mock_quests_known agent_determine_category_in)
  qed
qed

lemma failure_is_fallback:
  assumes "system_ready s" and "\<not> success (fst (process_user_feedback U e s fb))"
  shows "\<exists>m. fst (process_user_feedback U e s fb) = failure U fb m"
proof -
  let ?s1 = "snd (find_similar_documents U s (fb_content fb) 0.7 5)"
  from process_cases [of U e s fb] show ?thesis
  proof (elim disjE conjE exE)
    assume "\<not> system_ready s"
    with assms(1) show ?thesis by simp
  next
    fix m assume "process_user_feedback U e s fb = (failure U fb m, s)"
    then have "fst (process_user_feedback U e s fb) = failure U fb m" by simp
    then show ?thesis ..
  next
    fix docs
    assume "raise_generate_existing e = None"
      and "process_user_feedback U e s fb = generate_quest_from_existing U e ?s1 docs fb"
    with assms(2) show ?thesis by (simp add: existing_result)
  next
    assume "process_user_feedback U e s fb = create_new_expert_document_and_quest U e ?s1 fb"
    with assms(2) create_new_failure [of U e ?s1 fb] show ?thesis by simp
  qed
qed

lemma fallback_quest_shape:
  "\<exists>q. create_fallback_quest U fb = [q]
     \<and> title q = [0xAE30, 0xBCF8, 0x20] @ determine_category U (fb_content fb) @ [0x20, 0xC2E4, 0xCC9C, 0xD558, 0xAE30]
     \<and> then_action q = determine_category U (fb_content fb) @ [0x20, 0xAD00, 0xB828, 0x20, 0xAE30,
                                                                    0xBCF8, 0x20, 0xD589, 0xB3D9, 0x20,
                                                                    0xC2E4, 0xD589]
     \<and> difficulty q = easy"
  by (simp add: create_fallback_quest_def Let_def easy_def)

text \<open>Two requests on the initial system, evaluated.\<close>

lemma calm_fields [simp]:
  "now_stamp calm = ascii ''20250101_120000''"
  "raise_find_similar calm = None"
  "raise_generate_existing calm = None"
  "raise_search_trusted calm = None"
  "raise_create_expert calm = None"
  "raise_save calm = None"
  "raise_index calm = None"
  "raise_generate_new calm = None"
  by (simp_all add: calm_def)

lemma test_feedback_content [simp]: "fb_content (test_feedback c) = c"
  by (simp add: test_feedback_def)

lemma category_stocks:
  "determine_category latin [0xC8FC, 0xC2DD] = ascii ''finance''"
  "agent_determine_category latin [0xC8FC, 0xC2DD] = ascii ''health''"
  by (simp_all add: determine_category_def agent_determine_category_def health_keywords_def
      finance_keywords_def skincare_keywords_def agent_health_words_def
      agent_finance_words_def agent_skincare_words_def str_eval)

lemma search_stocks:
  "find_similar_documents latin (initialize_components None) [0xC8FC, 0xC2DD] 0.7 5
     = ([], initialize_components None)"
  by (simp add: find_similar_documents_def sim_no_query_keyword slice_to_def Let_def
      initialize_components_def initialize_mock_data_def)

lemma evaluate_neck:
  "evaluate_similarity
     (heap (snd (find_similar_documents latin (initialize_components None) [0xBAA9] 0.7 5)))
     [health_neck_001] fb = Inr True"
  by (simp add: search_neck_heap evaluate_similarity_def dict_get_def format_3f_def
      initial_heap_def)

lemma process_neck:
  "raise_find_similar e = None \<Longrightarrow>
     process_user_feedback latin e (initialize_components None) (test_feedback [0xBAA9])
       = generate_quest_from_existing latin e
           (snd (find_similar_documents latin (initialize_components None) [0xBAA9] 0.7 5))
           [health_neck_001] (test_feedback [0xBAA9])"
  by (simp add: process_user_feedback_def case_prod_beta search_neck_results evaluate_neck)

lemma process_stocks:
  "raise_find_similar e = None \<Longrightarrow>
     process_user_feedback latin e (initialize_components None) (test_feedback [0xC8FC, 0xC2DD])
       = create_new_expert_document_and_quest latin e (initialize_components None)
           (test_feedback [0xC8FC, 0xC2DD])"
  by (simp add: process_user_feedback_def search_stocks evaluate_similarity_def)

section \<open>Failure and fallback\<close>

text \<open>
  C2 as stated fails: a system whose initialisation failed answers every request with
  \<open>success\<close> false and an error message, and with no fallback quest.
\<close>

theorem not_ready_counterexample:
  "success (fst (process_user_feedback latin calm
       (initialize_components (Some (ascii ''connection refused''))) (test_feedback [0xBAA9])))
     = False
   \<and> fallback_quest (fst (process_user_feedback latin calm
       (initialize_components (Some (ascii ''connection refused''))) (test_feedback [0xBAA9])))
     = None"
  by (simp add: process_not_ready)

text \<open>
  C2, amended. Every result of a request to a ready system with \<open>success\<close> false
  carries an error message and the fallback quest set of the feedback. That set is a
  function of the feedback text alone; it has exactly one quest, which is easy and whose
  title and action are built around the category that \<open>_determine_category\<close> gives for
  the feedback text.
\<close>

theorem failure_carries_fallback:
  assumes "system_ready s" and "\<not> success (fst (process_user_feedback U e s fb))"
  shows "(\<exists>m. error (fst (process_user_feedback U e s fb)) = Some m)
    \<and> fallback_quest (fst (process_user_feedback U e s fb)) = Some (create_fallback_quest U fb)
    \<and> (\<exists>q. create_fallback_quest U fb = [q]
          \<and> title q = [0xAE30, 0xBCF8, 0x20] @ determine_category U (fb_content fb) @ [0x20, 0xC2E4, 0xCC9C, 0xD558, 0xAE30]
          \<and> then_action q = determine_category U (fb_content fb) @ [0x20, 0xAD00, 0xB828, 0x20, 0xAE30,
                                                                         0xBCF8, 0x20, 0xD589, 0xB3D9, 0x20,
                                                                         0xC2E4, 0xD589]
          \<and> difficulty q = easy)"
proof -
  from failure_is_fallback [OF assms]
  obtain m where "fst (process_user_feedback U e s fb) = failure U fb m" ..
  then have "error (fst (process_user_feedback U e s fb)) = Some m"
    and "fallback_quest (fst (process_user_feedback U e s fb)) = Some (create_fallback_quest U fb)"
    by simp_all
  with fallback_quest_shape [of U fb] show ?thesis
    by blast
qed

theorem failure_carries_fallback_witness:
  "system_ready (initialize_components None)
   \<and> \<not> success (fst (process_user_feedback latin (calm\<lparr>raise_find_similar := Some (ascii ''timeout'')\<rparr>)
         (initialize_components None) (test_feedback [0xBAA9])))
   \<and> error (fst (process_user_feedback latin (calm\<lparr>raise_find_similar := Some (ascii ''timeout'')\<rparr>)
         (initialize_components None) (test_feedback [0xBAA9]))) = Some (ascii ''timeout'')
   \<and> fallback_quest (fst (process_user_feedback latin
         (calm\<lparr>raise_find_similar := Some (ascii ''timeout'')\<rparr>)
         (initialize_components None) (test_feedback [0xBAA9])))
       = Some (create_fallback_quest latin (test_feedback [0xBAA9]))
   \<and> (\<exists>q. create_fallback_quest latin (test_feedback [0xBAA9]) = [q]
          \<and> title q = [0xAE30, 0xBCF8, 0x20] @ determine_category latin [0xBAA9] @ [0x20, 0xC2E4, 0xCC9C, 0xD558, 0xAE30]
          \<and> difficulty q = easy)"
proof -
  let ?e = "calm\<lparr>raise_find_similar := Some (ascii ''timeout'')\<rparr>"
  have ready: "system_ready (initialize_components None)"
    by simp
  have p: "process_user_feedback latin ?e (initialize_components None) (test_feedback [0xBAA9])
      = (failure latin (test_feedback [0xBAA9]) (ascii ''timeout''), initialize_components None)"
    by (simp add: process_search_raises)
  then have failed: "\<not> success (fst (process_user_feedback latin ?e (initialize_components None)
      (test_feedback [0xBAA9])))"
    by simp
  from failure_carries_fallback [OF ready failed] ready failed p show ?thesis
    by auto
qed

text \<open>
  C6 as stated fails: when the generator raises on the reuse path, the handler runs the
  new-document path, which can succeed. For the feedback that is the word neck the seeded
  neck document is reused; with a generator that raises on that call and not on the next,
  the result has \<open>success\<close> true and the method \<open>new_expert_document\<close>.
\<close>

theorem generation_failure_counterexample:
  "success (fst (process_user_feedback latin
       (calm\<lparr>raise_generate_existing := Some (ascii ''throttled'')\<rparr>)
       (initialize_components None) (test_feedback [0xBAA9]))) = True
   \<and> res_method (fst (process_user_feedback latin
       (calm\<lparr>raise_generate_existing := Some (ascii ''throttled'')\<rparr>)
       (initialize_components None) (test_feedback [0xBAA9]))) = Some (ascii ''new_expert_document'')"
proof -
  let ?e = "calm\<lparr>raise_generate_existing := Some (ascii ''throttled'')\<rparr>"
  let ?s1 = "snd (find_similar_documents latin (initialize_components None) [0xBAA9] 0.7 5)"
  have p: "process_user_feedback latin ?e (initialize_components None) (test_feedback [0xBAA9])
      = create_new_expert_document_and_quest latin ?e ?s1 (test_feedback [0xBAA9])"
    by (simp add: process_neck existing_result)
  have "success (fst (create_new_expert_document_and_quest latin ?e ?s1 (test_feedback [0xBAA9])))"
    by (simp add: create_new_success)
  with create_new_quests [OF this] p show ?thesis
    by simp
qed

text \<open>
  C6, amended. When the generator raises on the reuse path, the request is answered by the
  new-document path, run on the state the search left. The result has \<open>success\<close> true
  exactly when none of the five calls of that path raises, and then has the method
  \<open>new_expert_document\<close> and three quests; otherwise it is the fallback result, whose
  error message is that of a call of the new-document path.
\<close>

theorem generation_failure_runs_synthesis:
  assumes "system_ready s" and "raise_find_similar e = None"
    and "find_similar_documents U s (fb_content fb) 0.7 5 = (docs, s1)"
    and "evaluate_similarity (heap s1) docs fb = Inr True"
    and "raise_generate_existing e = Some m"
  shows "process_user_feedback U e s fb = create_new_expert_document_and_quest U e s1 fb
    \<and> (success (fst (process_user_feedback U e s fb)) \<longleftrightarrow>
         raise_search_trusted e = None \<and> raise_create_expert e = None \<and> raise_save e = None
         \<and> raise_index e = None \<and> raise_generate_new e = None)
    \<and> (success (fst (process_user_feedback U e s fb)) \<longrightarrow>
         res_method (fst (process_user_feedback U e s fb)) = Some (ascii ''new_expert_document'')
         \<and> (\<exists>qs. quests (fst (process_user_feedback U e s fb)) = Some qs \<and> length qs = 3))
    \<and> (\<not> success (fst (process_user_feedback U e s fb)) \<longrightarrow>
         (\<exists>m'. fst (process_user_feedback U e s fb) = failure U fb m'
            \<and> Some m' \<in> {raise_search_trusted e, raise_create_expert e, raise_save e,
                 raise_index e, raise_generate_new e}))"
proof -
  have p: "process_user_feedback U e s fb = create_new_expert_document_and_quest U e s1 fb"
    using assms by (simp add: process_user_feedback_def existing_result)
  have three: "success (fst (create_new_expert_document_and_quest U e s1 fb)) \<Longrightarrow>
      \<exists>qs. quests (fst (create_new_expert_document_and_quest U e s1 fb)) = Some qs \<and> length qs = 3"
    by (simp add: create_new_quests length_generate_mock_quests_known agent_determine_category_in)
  have failed: "\<not> success (fst (create_new_expert_document_and_quest U e s1 fb)) \<Longrightarrow>
      \<exists>m'. fst (create_new_expert_document_and_quest U e s1 fb) = failure U fb m'
        \<and> Some m' \<in> {raise_search_trusted e, raise_create_expert e, raise_save e,
             raise_index e, raise_generate_new e}"
    by (auto simp: create_new_expert_document_and_quest_def Let_def case_prod_beta
        split: option.splits)
  show ?thesis
    unfolding p using three failed
    by (simp add: create_new_success create_new_quests)
qed

theorem generation_failure_runs_synthesis_witness:
  "system_ready (initialize_components None)
   \<and> evaluate_similarity
       (heap (snd (find_similar_documents latin (initialize_components None) [0xBAA9] 0.7 5)))
       (fst (find_similar_documents latin (initialize_components None) [0xBAA9] 0.7 5))
       (test_feedback [0xBAA9]) = Inr True
   \<and> process_user_feedback latin
       (calm\<lparr>raise_generate_existing := Some (ascii ''throttled''),
             raise_save := Some (ascii ''timeout'')\<rparr>)
       (initialize_components None) (test_feedback [0xBAA9])
     = create_new_expert_document_and_quest latin
         (calm\<lparr>raise_generate_existing := Some (ascii ''throttled''),
               raise_save := Some (ascii ''timeout'')\<rparr>)
         (snd (find_similar_documents latin (initialize_components None) [0xBAA9] 0.7 5))
         (test_feedback [0xBAA9])
   \<and> \<not> success (fst (process_user_feedback latin
       (calm\<lparr>raise_generate_existing := Some (ascii ''throttled''),
             raise_save := Some (ascii ''timeout'')\<rparr>)
       (initialize_components None) (test_feedback [0xBAA9])))
   \<and> error (fst (process_user_feedback latin
       (calm\<lparr>raise_generate_existing := Some (ascii ''throttled''),
             raise_save := Some (ascii ''timeout'')\<rparr>)
       (initialize_components None) (test_feedback [0xBAA9]))) = Some (ascii ''timeout'')"
proof -
  let ?e = "calm\<lparr>raise_generate_existing := Some (ascii ''throttled''),
             raise_save := Some (ascii ''timeout'')\<rparr>"
  let ?fb = "test_feedback [0xBAA9]"
  have ready: "system_ready (initialize_components None)"
    by simp
  have quiet: "raise_find_similar ?e = None"
    by simp
  have search: "find_similar_documents latin (initialize_components None) (fb_content ?fb) 0.7 5
      = (fst (find_similar_documents latin (initialize_components None) [0xBAA9] 0.7 5),
         snd (find_similar_documents latin (initialize_components None) [0xBAA9] 0.7 5))"
    by simp
  have reuse: "evaluate_similarity
       (heap (snd (find_similar_documents latin (initialize_components None) [0xBAA9] 0.7 5)))
       (fst (find_similar_documents latin (initialize_components None) [0xBAA9] 0.7 5)) ?fb = Inr True"
    by (simp add: search_neck_results evaluate_neck)
  have raised: "raise_generate_existing ?e = Some (ascii ''throttled'')"
    by simp
  from generation_failure_runs_synthesis [OF ready quiet search reuse raised] ready reuse
  show ?thesis
    by (auto simp: ascii_def)
qed

section \<open>Index and store\<close>

text \<open>
  C7 as stated fails. At the start the index holds the three seeded documents and the
  store holds nothing. And when the indexing call raises after the document was saved (here
  for the feedback that is the word stocks, which matches no document), the new document
  stays in the store and is not in the index.
\<close>

theorem index_store_counterexample:
  "document_id ` set (mock_documents (initialize_components None))
     \<noteq> fst ` set (mock_storage (initialize_components None))
   \<and> ascii ''health_20250101_120000''
       \<in> fst ` set (mock_storage (snd (process_user_feedback latin
            (calm\<lparr>raise_index := Some (ascii ''timeout'')\<rparr>)
            (initialize_components None) (test_feedback [0xC8FC, 0xC2DD]))))
   \<and> ascii ''health_20250101_120000''
       \<notin> document_id ` set (mock_documents (snd (process_user_feedback latin
            (calm\<lparr>raise_index := Some (ascii ''timeout'')\<rparr>)
            (initialize_components None) (test_feedback [0xC8FC, 0xC2DD]))))"
  by (simp add: process_stocks create_new_expert_document_and_quest_def Let_def case_prod_beta
      category_stocks ascii_def)

text \<open>
  C7, amended. In every state that the pipeline reaches by requests whose indexing call
  does not raise, every item of the store is a document of the index, stored under that
  document's identifier, and no identifier is stored twice. The identifiers of the index
  are those of the three seeded documents together with the keys of the store, and the
  seeded documents stay in the index; so the two differ by the seeded documents, which the
  start puts in the index and not in the store.
\<close>

theorem persisted_documents_indexed:
  assumes "reachable U (\<lambda>e. raise_index e = None) s"
  shows "(\<forall>(k, d)\<in>set (mock_storage s). k = document_id d \<and> d \<in> set (mock_documents s))
    \<and> distinct (map fst (mock_storage s))
    \<and> document_id ` set (mock_documents s)
        = document_id ` set initialize_mock_data \<union> fst ` set (mock_storage s)
    \<and> set initialize_mock_data \<subseteq> set (mock_documents s)"
  using reachable_stored_indexed [OF assms] reachable_index_ids [OF assms]
    reachable_invariant [OF assms]
  by simp

theorem persisted_documents_indexed_witness:
  "reachable latin (\<lambda>e. raise_index e = None)
     (snd (process_user_feedback latin calm (initialize_components None) (test_feedback [0xC8FC, 0xC2DD])))
   \<and> fst ` set (mock_storage (snd (process_user_feedback latin calm
         (initialize_components None) (test_feedback [0xC8FC, 0xC2DD]))))
       = {ascii ''health_20250101_120000''}
   \<and> list_all
        (\<lambda>(k, d). k = document_id d
           \<and> d \<in> set (mock_documents (snd (process_user_feedback latin calm
                 (initialize_components None) (test_feedback [0xC8FC, 0xC2DD])))))
        (mock_storage (snd (process_user_feedback latin calm
           (initialize_components None) (test_feedback [0xC8FC, 0xC2DD]))))
   \<and> document_id ` set (mock_documents (snd (process_user_feedback latin calm
         (initialize_components None) (test_feedback [0xC8FC, 0xC2DD]))))
       = document_id ` set initialize_mock_data
         \<union> fst ` set (mock_storage (snd (process_user_feedback latin calm
             (initialize_components None) (test_feedback [0xC8FC, 0xC2DD]))))"
proof -
  have "reachable latin (\<lambda>e. raise_index e = None) (initialize_components None)"
    by (rule reachable.start)
  moreover have "raise_index calm = None"
    by simp
  ultimately have r: "reachable latin (\<lambda>e. raise_index e = None)
     (snd (process_user_feedback latin calm (initialize_components None) (test_feedback [0xC8FC, 0xC2DD])))"
    by (rule reachable.request)
  have "fst ` set (mock_storage (snd (process_user_feedback latin calm
         (initialize_components None) (test_feedback [0xC8FC, 0xC2DD]))))
       = {ascii ''health_20250101_120000''}"
    by (simp add: process_stocks create_new_expert_document_and_quest_def Let_def case_prod_beta
        category_stocks ascii_def)
  with persisted_documents_indexed [OF r] r show ?thesis
    by (simp add: list_all_iff)
qed

section \<open>Categories through the pipeline\<close>

text \<open>
  C10. Both classifiers answer one of the three categories health, finance and skincare,
  and each answers health for a text that contains none of its keywords. In
  every state the pipeline reaches, whatever the calls that raise, every document of the
  index and of the store has one of the three categories. So every result of a request in
  such a state with \<open>success\<close> true has exactly three quests, of the difficulties easy,
  medium and hard: the branch of \<open>_generate_mock_quests\<close> for an unknown category is
  not taken.
\<close>

theorem pipeline_categories:
  "determine_category U c \<in> categories \<and> agent_determine_category U c \<in> categories
   \<and> ((\<forall>kw\<in>set (health_keywords @ finance_keywords @ skincare_keywords).
          \<not> sublist kw (str_lower U c)) \<longrightarrow> determine_category U c = ascii ''health'')
   \<and> ((\<forall>kw\<in>set (agent_health_words @ agent_finance_words @ agent_skincare_words).
          \<not> sublist kw (str_lower U c)) \<longrightarrow> agent_determine_category U c = ascii ''health'')
   \<and> (reachable U P s \<longrightarrow>
        (\<forall>d\<in>set (mock_documents s). topic d \<in> categories)
        \<and> (\<forall>d\<in>snd ` set (mock_storage s). topic d \<in> categories))
   \<and> (reachable U P s \<and> success (fst (process_user_feedback U e s fb)) \<longrightarrow>
        (\<exists>qs. quests (fst (process_user_feedback U e s fb)) = Some qs \<and> length qs = 3
           \<and> map difficulty qs = [easy, medium, hard]))"
proof -
  have default: "(\<forall>kw\<in>set (health_keywords @ finance_keywords @ skincare_keywords).
      \<not> sublist kw (str_lower U c)) \<longrightarrow> determine_category U c = ascii ''health''"
    by (simp add: determine_category_def Let_def list_ex_iff)
  have default': "(\<forall>kw\<in>set (agent_health_words @ agent_finance_words @ agent_skincare_words).
      \<not> sublist kw (str_lower U c)) \<longrightarrow> agent_determine_category U c = ascii ''health''"
    by (simp add: agent_determine_category_def Let_def list_ex_iff)
  have topics: "reachable U P s \<Longrightarrow>
      (\<forall>d\<in>set (mock_documents s). topic d \<in> categories)
      \<and> (\<forall>d\<in>snd ` set (mock_storage s). topic d \<in> categories)"
    using reachable_invariant [of U P s] by simp
  have three: "\<exists>qs. quests (fst (process_user_feedback U e s fb)) = Some qs \<and> length qs = 3
      \<and> map difficulty qs = [easy, medium, hard]"
    if "reachable U P s" and "success (fst (process_user_feedback U e s fb))"
  proof -
    from topics [OF that(1)] have "\<forall>d\<in>set (mock_documents s). topic d \<in> categories"
      by simp
    from success_three_quests [OF this that(2)]
    obtain qs where qs: "quests (fst (process_user_feedback U e s fb)) = Some qs"
      "map difficulty qs = [easy, medium, hard]"
      by auto
    have "length qs = length (map difficulty qs)"
      by simp
    also from qs(2) have "\<dots> = 3"
      by (simp only: list.size)
    finally show ?thesis
      using qs by simp
  qed
  from default default' topics three show ?thesis
    by (simp add: determine_category_in agent_determine_category_in)
qed

theorem pipeline_categories_witness:
  "\<not> list_ex (\<lambda>kw. sublist kw (str_lower latin (ascii ''hello'')))
       (health_keywords @ finance_keywords @ skincare_keywords)
   \<and> determine_category latin (ascii ''hello'') = ascii ''health''
   \<and> \<not> list_ex (\<lambda>kw. sublist kw (str_lower latin (ascii ''hello'')))
       (agent_health_words @ agent_finance_words @ agent_skincare_words)
   \<and> agent_determine_category latin (ascii ''hello'') = ascii ''health''
   \<and> reachable latin (\<lambda>e. True) (initialize_components None)
   \<and> success (fst (process_user_feedback latin calm (initialize_components None)
        (test_feedback [0xBAA9])))
   \<and> (\<exists>qs. quests (fst (process_user_feedback latin calm (initialize_components None)
              (test_feedback [0xBAA9]))) = Some qs
          \<and> length qs = 3 \<and> map difficulty qs = [easy, medium, hard])"
proof -
  have none: "\<forall>kw\<in>set (health_keywords @ finance_keywords @ skincare_keywords).
      \<not> sublist kw (str_lower latin (ascii ''hello''))"
    by (simp add: health_keywords_def finance_keywords_def skincare_keywords_def ascii_def
        str_eval)
  have none': "\<forall>kw\<in>set (agent_health_words @ agent_finance_words @ agent_skincare_words).
      \<not> sublist kw (str_lower latin (ascii ''hello''))"
    by (simp add: agent_health_words_def agent_finance_words_def agent_skincare_words_def
        ascii_def str_eval)
  have start: "reachable latin (\<lambda>e. True) (initialize_components None)"
    by (rule reachable.start)
  have ok: "success (fst (process_user_feedback latin calm (initialize_components None)
        (test_feedback [0xBAA9])))"
    by (simp add: process_neck existing_result)
  from pipeline_categories [of latin "ascii ''hello''" "\<lambda>e. True" "initialize_components None"
      calm "test_feedback [0xBAA9]"] none none' start ok
  show ?thesis
    by (auto simp: list_ex_iff)
qed

end
